theory Spec2Isabelle
  imports Complex_Main
begin

section \<open>A shallow embedding of \<^verbatim>\<open>self-watchdog-monitor.py\<close>\<close>

text \<open>
  The program is the class \<^verbatim>\<open>SystemMonitor\<close>. Its methods read the operating system
  (psutil, files, subprocesses), keep one mutable field between samples
  (\<^verbatim>\<open>prev_network_bytes\<close>), write a log and post HTTP requests.

  \<^item> The object is the record \<open>monitor\<close>; every method takes it and returns it updated.
  \<^item> What the operating system and the network answer is the record \<open>world\<close>: one
    answer per call, indexed by the number of calls made so far (\<open>clock\<close>).
  \<^item> A raised Python exception is \<open>Inl e\<close>; the effects made before the raise stay in
    the returned object.
  \<^item> Python floats are read as exact rationals: the comparisons of the program are exact
    on finite floats, the divisions are read without rounding.
  \<^item> A formatted number (an f-string with \<^verbatim>\<open>:.2f\<close>) is kept as the number it formats.
\<close>

subsection \<open>Exceptions, log records, events\<close>

text \<open>
  All of them are subclasses of Python's \<^verbatim>\<open>Exception\<close>: \<open>LibraryError s\<close> is any
  exception raised by a library call (psutil, open, subprocess, requests), with its text.
\<close>

datatype exn = ZeroDivisionError | ValueError | IndexError | LibraryError string

datatype msg_type = Alert | Status

datatype icon = Warning_icon | Info_icon

text \<open>The values that stand for the strings the methods return.\<close>

datatype net_speed =
    NetSpeed rat rat   \<comment> \<open>\<^verbatim>\<open>f"up {a:.2f} KB/s | down {b:.2f} KB/s"\<close> for \<open>NetSpeed a b\<close>\<close>
  | NetNA              \<comment> \<open>\<^verbatim>\<open>"N/A"\<close>\<close>

datatype temperature =
    TempCelsius rat    \<comment> \<open>\<^verbatim>\<open>f"{x} degC"\<close> for a number \<open>x\<close>\<close>
  | TempText string    \<comment> \<open>a string taken from a command's output\<close>
  | TempNA             \<comment> \<open>\<^verbatim>\<open>"N/A"\<close>\<close>

record usage =
  usage_percent :: rat
  usage_total :: rat   \<comment> \<open>GB, formatted \<^verbatim>\<open>:.1f\<close>\<close>
  usage_used :: rat
  usage_free :: rat

record metrics =
  cpu_percent :: rat
  cpu_freq :: "rat option"   \<comment> \<open>GHz; \<open>None\<close> is \<^verbatim>\<open>"N/A"\<close>\<close>
  cpu_temp :: temperature
  memory_total :: rat
  memory_used :: rat
  memory_percent :: rat
  swap_used :: rat
  swap_percent :: rat
  network_speed :: net_speed

text \<open>
  The text of a notification, field by field as the f-string of
  \<^verbatim>\<open>send_telegram_message\<close> lays it out. \<open>msg_metrics = None\<close> is the empty dict: every
  \<^verbatim>\<open>metrics.get(k, 'N/A')\<close> then renders \<^verbatim>\<open>N/A\<close>.
\<close>

record message =
  msg_icon :: icon
  msg_title :: string
  msg_server :: string
  msg_os :: string
  msg_arch :: string
  msg_time :: string
  msg_metrics :: "metrics option"
  msg_disk_info :: "(string \<times> usage) list"

datatype log_record =
    Info_message_sent string        \<comment> \<open>\<^verbatim>\<open>Telegram message sent: {title}\<close>\<close>
  | Error_status_code int           \<comment> \<open>\<^verbatim>\<open>Failed to send Telegram message. Status code: {n}\<close>\<close>
  | Error_sending exn               \<comment> \<open>\<^verbatim>\<open>Error sending Telegram message: {e}\<close>\<close>
  | Error_system_metrics exn        \<comment> \<open>\<^verbatim>\<open>Error getting system metrics: {e}\<close>\<close>
  | Error_cpu_temperature exn       \<comment> \<open>\<^verbatim>\<open>Error reading CPU temperature: {e}\<close>\<close>
  | Error_disk_usage string exn     \<comment> \<open>\<^verbatim>\<open>Error getting disk usage for {mountpoint}: {e}\<close>\<close>
  | Error_alert_monitoring exn      \<comment> \<open>\<^verbatim>\<open>Error in alert monitoring: {e}\<close>\<close>
  | Error_status_update exn         \<comment> \<open>\<^verbatim>\<open>Error in status update: {e}\<close>\<close>

text \<open>
  The effects of a run, in the order they happen. \<open>Log\<close>, \<open>Post\<close>, \<open>Sleep\<close> and the four
  temperature probes are calls out of the program; \<open>Send_called\<close> marks the entry of
  \<^verbatim>\<open>send_telegram_message\<close> and \<open>Store_prev\<close> the assignment to
  \<^verbatim>\<open>self.prev_network_bytes\<close> in \<^verbatim>\<open>get_network_speed\<close>.
\<close>

datatype event =
    Log log_record
  | Post string string message      \<comment> \<open>\<^verbatim>\<open>requests.post\<close>: bot token, chat id, text\<close>
  | Sleep rat                       \<comment> \<open>\<^verbatim>\<open>time.sleep\<close>\<close>
  | Send_called string msg_type
  | Store_prev "int \<times> int"
  | Call_sensors_temperatures       \<comment> \<open>\<^verbatim>\<open>psutil.sensors_temperatures()\<close>\<close>
  | Open_thermal_zone               \<comment> \<open>\<^verbatim>\<open>open('/sys/class/thermal/thermal_zone0/temp')\<close>\<close>
  | Run_vcgencmd                    \<comment> \<open>\<^verbatim>\<open>check_output(['/opt/vc/bin/vcgencmd', 'measure_temp'])\<close>\<close>
  | Run_sensors                     \<comment> \<open>\<^verbatim>\<open>check_output(['sensors'])\<close>\<close>

subsection \<open>The object and the world\<close>

record monitor =
  threshold :: rat
  alert_interval :: rat
  status_interval :: rat
  server_name :: string
  os_info :: string
  arch_info :: string
  prev_network_bytes :: "int \<times> int"
  bot_token :: string
  chat_id :: string
  clock :: nat
  trace :: "event list"

record sensor_entry =
  label :: string
  current :: rat

text \<open>
  What the four temperature sources answer at one call of \<^verbatim>\<open>get_cpu_temperature\<close>.
  \<open>None\<close> is a source that is not there (\<^verbatim>\<open>hasattr\<close> or \<^verbatim>\<open>os.path.exists\<close> is false),
  \<open>Some (Inl e)\<close> one that is there and raises \<open>e\<close> when used.
\<close>

record temp_sources =
  sensors_temperatures :: "(exn + (string \<times> sensor_entry list) list) option"
    \<comment> \<open>the dict \<^verbatim>\<open>psutil.sensors_temperatures()\<close> returns, as its \<^verbatim>\<open>items()\<close>\<close>
  thermal_zone0 :: "(exn + int) option"
    \<comment> \<open>\<^verbatim>\<open>int(f.read())\<close> of the thermal-zone file\<close>
  vcgencmd :: "(exn + string) option"
    \<comment> \<open>the decoded output of \<^verbatim>\<open>vcgencmd measure_temp\<close>\<close>
  sensors_cmd :: "exn + string"
    \<comment> \<open>\<^verbatim>\<open>subprocess.check_output(['sensors']).decode()\<close>\<close>

record raw_sample =
  psutil_cpu_percent :: "exn + rat"
  psutil_cpu_freq :: "exn + rat option"        \<comment> \<open>\<^verbatim>\<open>.current\<close> in MHz; \<open>None\<close> when the call returns \<^verbatim>\<open>None\<close>\<close>
  psutil_virtual_memory :: "exn + (int \<times> int \<times> rat)"   \<comment> \<open>total, used, percent\<close>
  psutil_swap_memory :: "exn + (int \<times> rat)"     \<comment> \<open>used, percent\<close>
  temp_obs :: temp_sources

record partition =
  mountpoint :: string
  realpath :: string                           \<comment> \<open>\<^verbatim>\<open>os.path.realpath(partition.mountpoint)\<close>\<close>
  psutil_disk_usage :: "exn + (rat \<times> int \<times> int \<times> int)"   \<comment> \<open>percent, total, used, free\<close>

record world =
  w_net_io :: "nat \<Rightarrow> exn + (int \<times> int)"     \<comment> \<open>\<^verbatim>\<open>psutil.net_io_counters()\<close>: bytes sent, received\<close>
  w_sample :: "nat \<Rightarrow> raw_sample"
  w_partitions :: "nat \<Rightarrow> exn + partition list" \<comment> \<open>\<^verbatim>\<open>psutil.disk_partitions()\<close>\<close>
  w_now :: "nat \<Rightarrow> string"                    \<comment> \<open>\<^verbatim>\<open>datetime.now().strftime(...)\<close>\<close>
  w_post :: "nat \<Rightarrow> exn + int"                \<comment> \<open>the status code \<^verbatim>\<open>requests.post\<close> answers with\<close>
  w_os_info :: string                          \<comment> \<open>what \<^verbatim>\<open>_get_os_info()\<close> returns\<close>
  w_machine :: string                          \<comment> \<open>\<^verbatim>\<open>platform.machine()\<close>\<close>

definition emit :: "event \<Rightarrow> monitor \<Rightarrow> monitor" where
  "emit e st = st\<lparr>trace := trace st @ [e]\<rparr>"

definition advance :: "monitor \<Rightarrow> monitor" where
  "advance st = st\<lparr>clock := Suc (clock st)\<rparr>"

subsection \<open>Network speed\<close>

text \<open>Python's \<^verbatim>\<open>/\<close>: it raises on a zero divisor.\<close>

definition truediv :: "rat \<Rightarrow> rat \<Rightarrow> exn + rat" where
  "truediv a b = (if b = 0 then Inl ZeroDivisionError else Inr (a / b))"

definition get_network_bytes :: "world \<Rightarrow> monitor \<Rightarrow> (exn + int \<times> int) \<times> monitor" where
  "get_network_bytes w st = (w_net_io w (clock st), advance st)"

text \<open>
  The \<^verbatim>\<open>try\<close> block of \<^verbatim>\<open>get_network_speed\<close>, line by line: read the counters, divide
  the two differences by \<^verbatim>\<open>self.alert_interval\<close>, store the counters, format.
\<close>

definition network_speed_try :: "world \<Rightarrow> monitor \<Rightarrow> (exn + net_speed) \<times> monitor" where
  "network_speed_try w st =
     (case get_network_bytes w st of
        (Inl e, st1) \<Rightarrow> (Inl e, st1)
      | (Inr current_bytes, st1) \<Rightarrow>
          (case truediv (of_int (fst current_bytes - fst (prev_network_bytes st1)))
                  (alert_interval st1) of
             Inl e \<Rightarrow> (Inl e, st1)
           | Inr sent_speed \<Rightarrow>
               (case truediv (of_int (snd current_bytes - snd (prev_network_bytes st1)))
                       (alert_interval st1) of
                  Inl e \<Rightarrow> (Inl e, st1)
                | Inr recv_speed \<Rightarrow>
                    (Inr (NetSpeed (sent_speed / 1024) (recv_speed / 1024)),
                     emit (Store_prev current_bytes)
                       (st1\<lparr>prev_network_bytes := current_bytes\<rparr>)))))"

text \<open>The bare \<^verbatim>\<open>except\<close> turns every exception into \<^verbatim>\<open>"N/A"\<close>.\<close>

definition get_network_speed :: "world \<Rightarrow> monitor \<Rightarrow> net_speed \<times> monitor" where
  "get_network_speed w st =
     (case network_speed_try w st of
        (Inl e, st1) \<Rightarrow> (NetNA, st1)
      | (Inr s, st1) \<Rightarrow> (s, st1))"

subsection \<open>Python's string operations, on byte strings\<close>

text \<open>
  A \<open>string\<close> is the UTF-8 encoding of the Python string; the operations below agree
  with Python's on ASCII text, and the degree sign is its two bytes.
\<close>

text \<open>\<^verbatim>\<open>x in s\<close> for strings.\<close>

fun py_in :: "string \<Rightarrow> string \<Rightarrow> bool" where
  "py_in x [] = (x = [])"
| "py_in x (c # cs) = (take (length x) (c # cs) = x \<or> py_in x cs)"

definition lower_char :: "char \<Rightarrow> char" where
  "lower_char c =
     (let n = (of_char c :: nat) in if 65 \<le> n \<and> n \<le> 90 then char_of (n + 32) else c)"

definition lower :: "string \<Rightarrow> string" where
  "lower s = map lower_char s"

definition is_space :: "char \<Rightarrow> bool" where
  "is_space c =
     (let n = (of_char c :: nat) in (9 \<le> n \<and> n \<le> 13) \<or> (28 \<le> n \<and> n \<le> 32))"

definition strip :: "string \<Rightarrow> string" where
  "strip s = rev (dropWhile is_space (rev (dropWhile is_space s)))"

text \<open>\<^verbatim>\<open>s.split(sep)\<close> for a separator of one character.\<close>

fun split_char :: "char \<Rightarrow> string \<Rightarrow> string list" where
  "split_char sep [] = [[]]"
| "split_char sep (c # cs) =
     (if c = sep then [] # split_char sep cs
      else (case split_char sep cs of
              [] \<Rightarrow> [[c]]
            | p # ps \<Rightarrow> (c # p) # ps))"

text \<open>\<^verbatim>\<open>s.split(sep)[0]\<close> for a non-empty separator: the text before its first occurrence.\<close>

fun before :: "string \<Rightarrow> string \<Rightarrow> string" where
  "before sep [] = []"
| "before sep (c # cs) = (if take (length sep) (c # cs) = sep then [] else c # before sep cs)"

text \<open>
  \<^verbatim>\<open>s.replace(old, '')\<close> for a non-empty \<open>old\<close>: the occurrences are removed from left
  to right; \<open>k\<close> counts the characters of the current occurrence still to drop.
\<close>

fun remove_from :: "string \<Rightarrow> nat \<Rightarrow> string \<Rightarrow> string" where
  "remove_from old k [] = []"
| "remove_from old (Suc k) (c # cs) = remove_from old k cs"
| "remove_from old 0 (c # cs) =
     (if take (length old) (c # cs) = old then remove_from old (length old - 1) cs
      else c # remove_from old 0 cs)"

definition degree_sign :: string where
  "degree_sign = [CHR 0xC2, CHR 0xB0]"

subsection \<open>CPU temperature\<close>

definition label_matches :: "string \<Rightarrow> bool" where
  "label_matches l = list_ex (\<lambda>x. py_in x (lower l)) [''core'', ''cpu'', ''package'']"

text \<open>The two nested \<^verbatim>\<open>for\<close> loops of method 1: the first matching entry is returned.\<close>

fun scan_entries :: "sensor_entry list \<Rightarrow> temperature option" where
  "scan_entries [] = None"
| "scan_entries (entry # entries) =
     (if label_matches (label entry) then Some (TempCelsius (current entry))
      else scan_entries entries)"

fun scan_items :: "(string \<times> sensor_entry list) list \<Rightarrow> temperature option" where
  "scan_items [] = None"
| "scan_items ((name, entries) # rest) =
     (case scan_entries entries of
        Some t \<Rightarrow> Some t
      | None \<Rightarrow> scan_items rest)"

text \<open>
  Each method answers \<open>Inr (Some t)\<close> when it returns \<open>t\<close>, \<open>Inr None\<close> when control
  goes on to the next statement, \<open>Inl e\<close> when it raises.
\<close>

definition method1 :: "temp_sources \<Rightarrow> monitor \<Rightarrow> (exn + temperature option) \<times> monitor" where
  "method1 src st =
     (case sensors_temperatures src of
        None \<Rightarrow> (Inr None, st)
      | Some r \<Rightarrow>
          (case r of
             Inl e \<Rightarrow> (Inl e, emit Call_sensors_temperatures st)
           | Inr temps \<Rightarrow>
               (Inr (if temps \<noteq> [] then scan_items temps else None),
                emit Call_sensors_temperatures st)))"

definition method2 :: "temp_sources \<Rightarrow> monitor \<Rightarrow> (exn + temperature option) \<times> monitor" where
  "method2 src st =
     (case thermal_zone0 src of
        None \<Rightarrow> (Inr None, st)
      | Some r \<Rightarrow>
          (case r of
             Inl e \<Rightarrow> (Inl e, emit Open_thermal_zone st)
           | Inr millis \<Rightarrow>
               (Inr (Some (TempCelsius (of_int millis / 1000))), emit Open_thermal_zone st)))"

definition method3 :: "temp_sources \<Rightarrow> monitor \<Rightarrow> (exn + temperature option) \<times> monitor" where
  "method3 src st =
     (case vcgencmd src of
        None \<Rightarrow> (Inr None, st)
      | Some r \<Rightarrow>
          (case r of
             Inl e \<Rightarrow> (Inl e, emit Run_vcgencmd st)
           | Inr out \<Rightarrow>
               (Inr (Some (TempText (strip (remove_from ''temp='' 0 out)))),
                emit Run_vcgencmd st)))"

text \<open>
  The loop of method 4 over the lines of the output. On the first line that holds
  \<^verbatim>\<open>Core 0\<close> it returns \<^verbatim>\<open>line.split('+')[1].split(deg)[0].strip() + deg + 'C'\<close>, or raises
  \<^verbatim>\<open>IndexError\<close> when the line has no \<^verbatim>\<open>+\<close>.
\<close>

fun scan_lines :: "string list \<Rightarrow> exn + temperature option" where
  "scan_lines [] = Inr None"
| "scan_lines (line # rest) =
     (if py_in ''Core 0'' line then
        (case split_char CHR ''+'' line of
           _ # p # _ \<Rightarrow> Inr (Some (TempText (strip (before degree_sign p) @ degree_sign @ ''C'')))
         | _ \<Rightarrow> Inl IndexError)
      else scan_lines rest)"

text \<open>Method 4 has a \<^verbatim>\<open>try\<close> of its own, whose bare \<^verbatim>\<open>except\<close> is \<^verbatim>\<open>pass\<close>.\<close>

definition method4 :: "temp_sources \<Rightarrow> monitor \<Rightarrow> temperature option \<times> monitor" where
  "method4 src st =
     (case sensors_cmd src of
        Inl e \<Rightarrow> (None, emit Run_sensors st)
      | Inr out \<Rightarrow>
          (case scan_lines (split_char CHR 0x0A out) of
             Inl e \<Rightarrow> (None, emit Run_sensors st)
           | Inr t \<Rightarrow> (t, emit Run_sensors st)))"

definition temperature_try :: "temp_sources \<Rightarrow> monitor \<Rightarrow> (exn + temperature) \<times> monitor" where
  "temperature_try src st =
     (case method1 src st of
        (Inl e, st1) \<Rightarrow> (Inl e, st1)
      | (Inr (Some t), st1) \<Rightarrow> (Inr t, st1)
      | (Inr None, st1) \<Rightarrow>
          (case method2 src st1 of
             (Inl e, st2) \<Rightarrow> (Inl e, st2)
           | (Inr (Some t), st2) \<Rightarrow> (Inr t, st2)
           | (Inr None, st2) \<Rightarrow>
               (case method3 src st2 of
                  (Inl e, st3) \<Rightarrow> (Inl e, st3)
                | (Inr (Some t), st3) \<Rightarrow> (Inr t, st3)
                | (Inr None, st3) \<Rightarrow>
                    (case method4 src st3 of
                       (Some t, st4) \<Rightarrow> (Inr t, st4)
                     | (None, st4) \<Rightarrow> (Inr TempNA, st4)))))"

definition get_cpu_temperature :: "temp_sources \<Rightarrow> monitor \<Rightarrow> temperature \<times> monitor" where
  "get_cpu_temperature src st =
     (case temperature_try src st of
        (Inl e, st1) \<Rightarrow> (TempNA, emit (Log (Error_cpu_temperature e)) st1)
      | (Inr t, st1) \<Rightarrow> (t, st1))"

subsection \<open>Disk usage\<close>

text \<open>
  A Python dict as the list of its items in insertion order: storing under a key that is
  there replaces the value in place, a new key goes to the end.
\<close>

fun dict_set :: "'k \<Rightarrow> 'v \<Rightarrow> ('k \<times> 'v) list \<Rightarrow> ('k \<times> 'v) list" where
  "dict_set k v [] = [(k, v)]"
| "dict_set k v ((k', v') # d) =
     (if k' = k then (k, v) # d else (k', v') # dict_set k v d)"

definition gigabytes :: "int \<Rightarrow> rat" where
  "gigabytes n = of_int n / 1024 ^ 3"

text \<open>The loop of \<^verbatim>\<open>get_disk_usage\<close> over the partitions, \<open>d\<close> the dict built so far.\<close>

fun disk_usage_loop ::
  "partition list \<Rightarrow> (string \<times> usage) list \<Rightarrow> monitor \<Rightarrow> (string \<times> usage) list \<times> monitor" where
  "disk_usage_loop [] d st = (d, st)"
| "disk_usage_loop (p # ps) d st =
     (if py_in ''/snap'' (mountpoint p) then disk_usage_loop ps d st
      else if py_in ''/snap'' (realpath p) then disk_usage_loop ps d st
      else (case psutil_disk_usage p of
              Inl e \<Rightarrow> disk_usage_loop ps d (emit (Log (Error_disk_usage (mountpoint p) e)) st)
            | Inr (pct, tot, usd, fre) \<Rightarrow>
                disk_usage_loop ps
                  (dict_set (mountpoint p)
                     \<lparr>usage_percent = pct, usage_total = gigabytes tot,
                      usage_used = gigabytes usd, usage_free = gigabytes fre\<rparr> d)
                  st))"

text \<open>\<^verbatim>\<open>psutil.disk_partitions()\<close> stands outside the \<^verbatim>\<open>try\<close>: when it raises, the method raises.\<close>

definition get_disk_usage ::
  "world \<Rightarrow> monitor \<Rightarrow> (exn + (string \<times> usage) list) \<times> monitor" where
  "get_disk_usage w st =
     (case w_partitions w (clock st) of
        Inl e \<Rightarrow> (Inl e, advance st)
      | Inr ps \<Rightarrow>
          (case disk_usage_loop ps [] (advance st) of
             (d, st1) \<Rightarrow> (Inr d, st1)))"

subsection \<open>System metrics\<close>

text \<open>
  The \<^verbatim>\<open>try\<close> block of \<^verbatim>\<open>get_system_metrics\<close>: four psutil calls, then the dict, whose
  values are evaluated in the order written (temperature before network speed).
\<close>

definition system_metrics_try :: "world \<Rightarrow> monitor \<Rightarrow> (exn + metrics) \<times> monitor" where
  "system_metrics_try w st =
     (let raw = w_sample w (clock st); st0 = advance st in
      case psutil_cpu_percent raw of
        Inl e \<Rightarrow> (Inl e, st0)
      | Inr cpu \<Rightarrow>
      (case psutil_cpu_freq raw of
        Inl e \<Rightarrow> (Inl e, st0)
      | Inr freq \<Rightarrow>
      (case psutil_virtual_memory raw of
        Inl e \<Rightarrow> (Inl e, st0)
      | Inr (mem_total, mem_used, mem_percent) \<Rightarrow>
      (case psutil_swap_memory raw of
        Inl e \<Rightarrow> (Inl e, st0)
      | Inr (swp_used, swp_percent) \<Rightarrow>
      (case get_cpu_temperature (temp_obs raw) st0 of
        (temp, st1) \<Rightarrow>
      (case get_network_speed w st1 of
        (speed, st2) \<Rightarrow>
          (Inr \<lparr>cpu_percent = cpu,
                cpu_freq = map_option (\<lambda>mhz. mhz / 1000) freq,
                cpu_temp = temp,
                memory_total = gigabytes mem_total,
                memory_used = gigabytes mem_used,
                memory_percent = mem_percent,
                swap_used = gigabytes swp_used,
                swap_percent = swp_percent,
                network_speed = speed\<rparr>, st2)))))))"

text \<open>\<open>None\<close> is the empty dict that the \<^verbatim>\<open>except\<close> branch returns.\<close>

definition get_system_metrics :: "world \<Rightarrow> monitor \<Rightarrow> metrics option \<times> monitor" where
  "get_system_metrics w st =
     (case system_metrics_try w st of
        (Inl e, st1) \<Rightarrow> (None, emit (Log (Error_system_metrics e)) st1)
      | (Inr m, st1) \<Rightarrow> (Some m, st1))"

text \<open>\<^verbatim>\<open>metrics.get(key, 0)\<close> for a numeric key.\<close>

definition get_or_0 :: "(metrics \<Rightarrow> rat) \<Rightarrow> metrics option \<Rightarrow> rat" where
  "get_or_0 key m = (case m of None \<Rightarrow> 0 | Some d \<Rightarrow> key d)"

subsection \<open>Notification\<close>

definition send_try :: "world \<Rightarrow> string \<Rightarrow> msg_type \<Rightarrow> monitor \<Rightarrow> (exn + unit) \<times> monitor" where
  "send_try w title message_type st =
     (let timestamp = w_now w (clock st) in
      case get_system_metrics w st of
        (metrics, st1) \<Rightarrow>
      (case get_disk_usage w st1 of
        (Inl e, st2) \<Rightarrow> (Inl e, st2)
      | (Inr disk_usage, st2) \<Rightarrow>
          (let message =
                 \<lparr>msg_icon = (if message_type = Alert then Warning_icon else Info_icon),
                  msg_title = title,
                  msg_server = server_name st2,
                  msg_os = os_info st2,
                  msg_arch = arch_info st2,
                  msg_time = timestamp,
                  msg_metrics = metrics,
                  msg_disk_info = disk_usage\<rparr>;
               st3 = advance (emit (Post (bot_token st2) (chat_id st2) message) st2)
           in case w_post w (clock st2) of
                Inl e \<Rightarrow> (Inl e, st3)
              | Inr status_code \<Rightarrow>
                  if status_code = 200 then (Inr (), emit (Log (Info_message_sent title)) st3)
                  else (Inr (), emit (Log (Error_status_code status_code)) st3))))"

text \<open>
  The whole body is the \<^verbatim>\<open>try\<close> block; \<^verbatim>\<open>except Exception\<close> logs and the method returns.
\<close>

definition send_telegram_message ::
  "world \<Rightarrow> string \<Rightarrow> msg_type \<Rightarrow> monitor \<Rightarrow> (exn + unit) \<times> monitor" where
  "send_telegram_message w title message_type st =
     (case send_try w title message_type (emit (Send_called title message_type) st) of
        (Inl e, st1) \<Rightarrow> (Inr (), emit (Log (Error_sending e)) st1)
      | (Inr u, st1) \<Rightarrow> (Inr (), st1))"

subsection \<open>Threshold check\<close>

text \<open>Statement sequencing: an exception of the first statement skips the second.\<close>

definition and_then ::
  "(exn + unit) \<times> monitor \<Rightarrow> (monitor \<Rightarrow> (exn + unit) \<times> monitor) \<Rightarrow> (exn + unit) \<times> monitor" where
  "and_then r f = (case r of (Inl e, st) \<Rightarrow> (Inl e, st) | (Inr u, st) \<Rightarrow> f st)"

text \<open>The \<^verbatim>\<open>for\<close> loop over \<^verbatim>\<open>disk_usage.items()\<close>, left by \<^verbatim>\<open>break\<close> after the first alert.\<close>

fun check_disks :: "world \<Rightarrow> (string \<times> usage) list \<Rightarrow> monitor \<Rightarrow> (exn + unit) \<times> monitor" where
  "check_disks w [] st = (Inr (), st)"
| "check_disks w ((mount, usage) # rest) st =
     (if usage_percent usage \<ge> threshold st
      then send_telegram_message w (''High Disk Usage Alert for '' @ mount) Alert st
      else check_disks w rest st)"

definition check_thresholds :: "world \<Rightarrow> monitor \<Rightarrow> (exn + unit) \<times> monitor" where
  "check_thresholds w st =
     (case get_system_metrics w st of
        (metrics, st1) \<Rightarrow>
      (case get_disk_usage w st1 of
        (Inl e, st2) \<Rightarrow> (Inl e, st2)
      | (Inr disk_usage, st2) \<Rightarrow>
          and_then
            (if get_or_0 memory_percent metrics \<ge> threshold st2
             then send_telegram_message w ''High RAM Usage Alert'' Alert st2
             else (Inr (), st2))
            (\<lambda>st3.
          and_then
            (if get_or_0 swap_percent metrics \<ge> threshold st3
             then send_telegram_message w ''High Swap Usage Alert'' Alert st3
             else (Inr (), st3))
            (\<lambda>st4.
          and_then
            (if get_or_0 cpu_percent metrics \<ge> threshold st4
             then send_telegram_message w ''High CPU Usage Alert'' Alert st4
             else (Inr (), st4))
            (\<lambda>st5. check_disks w disk_usage st5)))))"

subsection \<open>The two loops\<close>

text \<open>\<^verbatim>\<open>time.sleep\<close> raises \<^verbatim>\<open>ValueError\<close> on a negative length.\<close>

definition time_sleep :: "rat \<Rightarrow> monitor \<Rightarrow> (exn + unit) \<times> monitor" where
  "time_sleep secs st = (if secs < 0 then (Inl ValueError, st) else (Inr (), emit (Sleep secs) st))"

text \<open>
  One pass through the body of \<^verbatim>\<open>while True\<close>. The handler is not itself guarded: what it
  raises leaves the loop.
\<close>

definition alert_iteration :: "world \<Rightarrow> monitor \<Rightarrow> (exn + unit) \<times> monitor" where
  "alert_iteration w st =
     (case and_then (check_thresholds w st) (\<lambda>st1. time_sleep (alert_interval st1) st1) of
        (Inr u, st2) \<Rightarrow> (Inr (), st2)
      | (Inl e, st2) \<Rightarrow>
          (let st3 = emit (Log (Error_alert_monitoring e)) st2
           in time_sleep (alert_interval st3) st3))"

definition status_iteration :: "world \<Rightarrow> monitor \<Rightarrow> (exn + unit) \<times> monitor" where
  "status_iteration w st =
     (case and_then (send_telegram_message w ''Regular Status Update'' Status st)
             (\<lambda>st1. time_sleep (status_interval st1) st1) of
        (Inr u, st2) \<Rightarrow> (Inr (), st2)
      | (Inl e, st2) \<Rightarrow>
          (let st3 = emit (Log (Error_status_update e)) st2
           in time_sleep (status_interval st3) st3))"

text \<open>
  The loops, cut after \<open>n\<close> passes. \<open>Inl e\<close>: the exception \<open>e\<close> has left the loop and the
  thread is over. \<open>Inr ()\<close>: \<open>n\<close> passes are done and the loop is at its head again.
\<close>

fun alert_monitor :: "nat \<Rightarrow> world \<Rightarrow> monitor \<Rightarrow> (exn + unit) \<times> monitor" where
  "alert_monitor 0 w st = (Inr (), st)"
| "alert_monitor (Suc n) w st =
     (case alert_iteration w st of
        (Inl e, st1) \<Rightarrow> (Inl e, st1)
      | (Inr u, st1) \<Rightarrow> alert_monitor n w st1)"

fun status_update :: "nat \<Rightarrow> world \<Rightarrow> monitor \<Rightarrow> (exn + unit) \<times> monitor" where
  "status_update 0 w st = (Inr (), st)"
| "status_update (Suc n) w st =
     (case status_iteration w st of
        (Inl e, st1) \<Rightarrow> (Inl e, st1)
      | (Inr u, st1) \<Rightarrow> status_update n w st1)"

subsection \<open>Construction\<close>

record config =
  SERVER_NAME :: string
  TELEGRAM_BOT_TOKEN :: string
  TELEGRAM_CHAT_ID :: string
  THRESHOLD :: rat
  ALERT_INTERVAL :: rat
  STATUS_INTERVAL :: rat

definition default_config :: config where
  "default_config =
     \<lparr>SERVER_NAME = ''server_name'', TELEGRAM_BOT_TOKEN = ''telegram_token'',
      TELEGRAM_CHAT_ID = ''telegram_chat_id'', THRESHOLD = 80, ALERT_INTERVAL = 300,
      STATUS_INTERVAL = 4\<rparr>"

text \<open>
  \<^verbatim>\<open>__init__\<close>: the first call of \<^verbatim>\<open>psutil.net_io_counters()\<close> (answer number 0 of the
  world) fills \<^verbatim>\<open>prev_network_bytes\<close>; when it raises, no object is made.
\<close>

definition init :: "config \<Rightarrow> world \<Rightarrow> exn + monitor" where
  "init cfg w =
     (case w_net_io w 0 of
        Inl e \<Rightarrow> Inl e
      | Inr bytes \<Rightarrow>
          Inr \<lparr>threshold = THRESHOLD cfg,
               alert_interval = ALERT_INTERVAL cfg,
               status_interval = STATUS_INTERVAL cfg * 3600,
               server_name = SERVER_NAME cfg,
               os_info = w_os_info w,
               arch_info = w_machine w,
               prev_network_bytes = bytes,
               bot_token = TELEGRAM_BOT_TOKEN cfg,
               chat_id = TELEGRAM_CHAT_ID cfg,
               clock = 1,
               trace = []\<rparr>)"

section \<open>Reading the trace\<close>

text \<open>The settings no method assigns after construction.\<close>

definition settings :: "monitor \<Rightarrow> rat \<times> rat \<times> rat" where
  "settings st = (threshold st, alert_interval st, status_interval st)"

text \<open>The calls of \<^verbatim>\<open>send_telegram_message\<close>, the stores to
  \<^verbatim>\<open>prev_network_bytes\<close> and the posted messages of a trace, each in order.\<close>

definition sends_of :: "event list \<Rightarrow> (string \<times> msg_type) list" where
  "sends_of evs = concat (map (\<lambda>e. case e of Send_called t m \<Rightarrow> [(t, m)] | _ \<Rightarrow> []) evs)"

definition stores_of :: "event list \<Rightarrow> (int \<times> int) list" where
  "stores_of evs = concat (map (\<lambda>e. case e of Store_prev c \<Rightarrow> [c] | _ \<Rightarrow> []) evs)"

definition posts_of :: "event list \<Rightarrow> message list" where
  "posts_of evs = concat (map (\<lambda>e. case e of Post b c m \<Rightarrow> [m] | _ \<Rightarrow> []) evs)"

text \<open>The lengths of the sleeps of a trace, in order.\<close>

definition sleeps_of :: "event list \<Rightarrow> rat list" where
  "sleeps_of evs = concat (map (\<lambda>e. case e of Sleep x \<Rightarrow> [x] | _ \<Rightarrow> []) evs)"

text \<open>Log records and temperature probes: the events of a sample that send, post and
  store nothing.\<close>

definition noise :: "event \<Rightarrow> bool" where
  "noise e =
     (case e of
        Log r \<Rightarrow> True
      | Call_sensors_temperatures \<Rightarrow> True
      | Open_thermal_zone \<Rightarrow> True
      | Run_vcgencmd \<Rightarrow> True
      | Run_sensors \<Rightarrow> True
      | _ \<Rightarrow> False)"

text \<open>\<open>quiet st st'\<close>: from \<open>st\<close> to \<open>st'\<close> only noise was added to the trace.\<close>

definition quiet :: "monitor \<Rightarrow> monitor \<Rightarrow> bool" where
  "quiet st st' =
     (settings st' = settings st \<and> clock st' = clock st
      \<and> prev_network_bytes st' = prev_network_bytes st
      \<and> sends_of (trace st') = sends_of (trace st)
      \<and> posts_of (trace st') = posts_of (trace st)
      \<and> stores_of (trace st') = stores_of (trace st)
      \<and> sleeps_of (trace st') = sleeps_of (trace st))"

section \<open>Concrete objects and worlds\<close>

text \<open>An object as \<^verbatim>\<open>__init__\<close> leaves it, with an alert interval of 10 seconds and the
  counters (100, 200) stored.\<close>

definition monitor0 :: monitor where
  "monitor0 =
     \<lparr>threshold = 80, alert_interval = 10, status_interval = 14400,
      server_name = ''server_name'', os_info = ''Linux'', arch_info = ''x86_64'',
      prev_network_bytes = (100, 200), bot_token = ''telegram_token'',
      chat_id = ''telegram_chat_id'', clock = 0, trace = []\<rparr>"

text \<open>A host with no temperature source at all.\<close>

definition no_temp :: temp_sources where
  "no_temp =
     \<lparr>sensors_temperatures = None, thermal_zone0 = None, vcgencmd = None,
      sensors_cmd = Inl (LibraryError ''FileNotFoundError'')\<rparr>"

definition sample_of :: "rat \<Rightarrow> rat \<Rightarrow> rat \<Rightarrow> raw_sample" where
  "sample_of cpu mem swp =
     \<lparr>psutil_cpu_percent = Inr cpu, psutil_cpu_freq = Inr (Some 2400),
      psutil_virtual_memory = Inr (8589934592, 4294967296, mem),
      psutil_swap_memory = Inr (0, swp), temp_obs = no_temp\<rparr>"

text \<open>A world where every call answers, always the same: counters (1100, 1700), CPU 10%,
  memory 20%, swap 0%, no partition, HTTP 200.\<close>

definition calm_world :: world where
  "calm_world =
     \<lparr>w_net_io = (\<lambda>k. Inr (1100, 1700)), w_sample = (\<lambda>k. sample_of 10 20 0),
      w_partitions = (\<lambda>k. Inr []), w_now = (\<lambda>k. ''2024-01-01 00:00:00''),
      w_post = (\<lambda>k. Inr 200), w_os_info = ''Linux'', w_machine = ''x86_64''\<rparr>"

text \<open>\<open>sampled st st'\<close>: from \<open>st\<close> to \<open>st'\<close> the operating system was read; nothing was sent
  or posted and the settings are the same.\<close>

definition sampled :: "monitor \<Rightarrow> monitor \<Rightarrow> bool" where
  "sampled st st' =
     (settings st' = settings st
      \<and> sends_of (trace st') = sends_of (trace st)
      \<and> posts_of (trace st') = posts_of (trace st)
      \<and> sleeps_of (trace st') = sleeps_of (trace st))"

definition store_count :: "monitor \<Rightarrow> nat" where
  "store_count st = length (stores_of (trace st))"

definition send_count :: "monitor \<Rightarrow> nat" where
  "send_count st = length (sends_of (trace st))"

text \<open>The calls of \<^verbatim>\<open>send_telegram_message\<close> that one \<^verbatim>\<open>check_thresholds\<close> makes.\<close>

definition fired :: "world \<Rightarrow> monitor \<Rightarrow> (string \<times> msg_type) list" where
  "fired w st = drop (send_count st) (sends_of (trace (snd (check_thresholds w st))))"

text \<open>The first item of \<^verbatim>\<open>disk_usage.items()\<close> at or over the threshold.\<close>

definition first_offender :: "rat \<Rightarrow> (string \<times> usage) list \<Rightarrow> (string \<times> usage) option" where
  "first_offender t d = find (\<lambda>(mount, usage). usage_percent usage \<ge> t) d"

definition disk_title :: "string \<Rightarrow> string" where
  "disk_title mount = ''High Disk Usage Alert for '' @ mount"

definition is_disk_title :: "string \<Rightarrow> bool" where
  "is_disk_title t = (take 26 t = ''High Disk Usage Alert for '')"

text \<open>Four partitions: the root at 50%, a snap mount at 100%, then two full disks.\<close>

definition four_partitions :: "partition list" where
  "four_partitions =
     [\<lparr>mountpoint = ''/'', realpath = ''/'', psutil_disk_usage = Inr (50, 100, 50, 50)\<rparr>,
      \<lparr>mountpoint = ''/snap/core/1'', realpath = ''/snap/core/1'',
        psutil_disk_usage = Inr (100, 100, 100, 0)\<rparr>,
      \<lparr>mountpoint = ''/data'', realpath = ''/data'', psutil_disk_usage = Inr (91, 100, 91, 9)\<rparr>,
      \<lparr>mountpoint = ''/backup'', realpath = ''/backup'',
        psutil_disk_usage = Inr (95, 100, 95, 5)\<rparr>]"

text \<open>A loaded host: CPU 90%, memory 85%, swap 5%, and the four partitions.\<close>

definition busy_world :: world where
  "busy_world =
     calm_world\<lparr>w_sample := (\<lambda>k. sample_of 90 85 5), w_partitions := (\<lambda>k. Inr four_partitions)\<rparr>"

text \<open>Temperature sources of four hosts: one with the sensor API (and a thermal zone), one
  with the thermal zone only, a Raspberry Pi with \<^verbatim>\<open>vcgencmd\<close>, one with the
  \<^verbatim>\<open>sensors\<close> tool only.\<close>

definition api_sources :: temp_sources where
  "api_sources =
     \<lparr>sensors_temperatures =
        Some (Inr [(''acpitz'', [\<lparr>label = '''', current = 278 / 10\<rparr>]),
                   (''coretemp'', [\<lparr>label = ''Package id 0'', current = 45\<rparr>,
                                   \<lparr>label = ''Core 0'', current = 44\<rparr>])]),
      thermal_zone0 = Some (Inr 27800), vcgencmd = None,
      sensors_cmd = Inl (LibraryError ''FileNotFoundError'')\<rparr>"

definition zone_sources :: temp_sources where
  "zone_sources = no_temp\<lparr>thermal_zone0 := Some (Inr 47000)\<rparr>"

definition pi_sources :: temp_sources where
  "pi_sources = no_temp\<lparr>vcgencmd := Some (Inr ''temp=47.2'C'')\<rparr>"

definition tool_sources :: temp_sources where
  "tool_sources =
     no_temp\<lparr>sensors_cmd := Inr (''Core 0:        +47.0'' @ degree_sign @ ''C  (high = +80.0)'')\<rparr>"

text \<open>A host whose thermal-zone file is there and does not parse, and whose
  \<^verbatim>\<open>sensors\<close> tool works.\<close>

definition bad_zone_sources :: temp_sources where
  "bad_zone_sources = tool_sources\<lparr>thermal_zone0 := Some (Inl ValueError)\<rparr>"

text \<open>A world whose network counters grow: (100, 200) at the first reading, 1000 bytes
  sent and 1500 received more at each later one.\<close>

definition growing_world :: world where
  "growing_world =
     calm_world\<lparr>w_net_io := (\<lambda>k. Inr (100 + 1000 * int k, 200 + 1500 * int k))\<rparr>"

text \<open>A platform where \<^verbatim>\<open>psutil.cpu_freq()\<close> raises at every call; otherwise the loaded
  host.\<close>

definition freqless_world :: world where
  "freqless_world =
     busy_world\<lparr>w_sample :=
       (\<lambda>k. (sample_of 90 85 5)\<lparr>psutil_cpu_freq := Inl (LibraryError ''NotImplementedError'')\<rparr>)\<rparr>"

text \<open>One conditional alert of \<^verbatim>\<open>check_thresholds\<close>, as a change of the object.\<close>

definition alert_if :: "world \<Rightarrow> bool \<Rightarrow> string \<Rightarrow> monitor \<Rightarrow> monitor" where
  "alert_if w c t s = (if c then snd (send_telegram_message w t Alert s) else s)"





text \<open>The messaging endpoint answers 500.\<close>

definition refusing_world :: world where
  "refusing_world = calm_world\<lparr>w_post := (\<lambda>k. Inr 500)\<rparr>"

text \<open>The connection to the messaging endpoint fails.\<close>

definition offline_world :: world where
  "offline_world = calm_world\<lparr>w_post := (\<lambda>k. Inl (LibraryError ''ConnectionError''))\<rparr>"


text \<open>\<open>bal k s s'\<close>: from \<open>s\<close> to \<open>s'\<close> the counters were stored \<open>k\<close> times for each call of
  \<^verbatim>\<open>send_telegram_message\<close>, and the settings are the same.\<close>

definition bal :: "nat \<Rightarrow> monitor \<Rightarrow> monitor \<Rightarrow> bool" where
  "bal k s s' =
     (settings s' = settings s \<and> send_count s \<le> send_count s'
      \<and> store_count s' = store_count s + k * (send_count s' - send_count s))"

text \<open>\<^verbatim>\<open>psutil.net_io_counters()\<close> raises at every call.\<close>

definition deaf_world :: world where
  "deaf_world = calm_world\<lparr>w_net_io := (\<lambda>k. Inl (LibraryError ''AttributeError''))\<rparr>"

section \<open>Frame lemmas\<close>

lemma emit_simps [simp]:
  "trace (emit e st) = trace st @ [e]"
  "clock (emit e st) = clock st"
  "prev_network_bytes (emit e st) = prev_network_bytes st"
  "settings (emit e st) = settings st"
  by (simp_all add: emit_def settings_def)

lemma advance_simps [simp]:
  "trace (advance st) = trace st"
  "clock (advance st) = Suc (clock st)"
  "prev_network_bytes (advance st) = prev_network_bytes st"
  "settings (advance st) = settings st"
  by (simp_all add: advance_def settings_def)

lemma proj_append [simp]:
  "sends_of (xs @ ys) = sends_of xs @ sends_of ys"
  "stores_of (xs @ ys) = stores_of xs @ stores_of ys"
  "posts_of (xs @ ys) = posts_of xs @ posts_of ys"
  "sleeps_of (xs @ ys) = sleeps_of xs @ sleeps_of ys"
  by (simp_all add: sends_of_def stores_of_def posts_of_def sleeps_of_def)

lemma proj_Nil [simp]:
  "sends_of [] = []" "stores_of [] = []" "posts_of [] = []" "sleeps_of [] = []"
  by (simp_all add: sends_of_def stores_of_def posts_of_def sleeps_of_def)

lemma proj_Cons [simp]:
  "sends_of (e # es) = (case e of Send_called t m \<Rightarrow> [(t, m)] | _ \<Rightarrow> []) @ sends_of es"
  "stores_of (e # es) = (case e of Store_prev c \<Rightarrow> [c] | _ \<Rightarrow> []) @ stores_of es"
  "posts_of (e # es) = (case e of Post b c m \<Rightarrow> [m] | _ \<Rightarrow> []) @ posts_of es"
  "sleeps_of (e # es) = (case e of Sleep x \<Rightarrow> [x] | _ \<Rightarrow> []) @ sleeps_of es"
  by (simp_all add: sends_of_def stores_of_def posts_of_def sleeps_of_def)

lemma quiet_refl [simp]: "quiet st st"
  by (simp add: quiet_def)

lemma quiet_trans: "quiet a b \<Longrightarrow> quiet b c \<Longrightarrow> quiet a c"
  by (simp add: quiet_def)

lemma quiet_emit_noise: "noise e \<Longrightarrow> quiet st (emit e st)"
  by (cases e) (simp_all add: quiet_def noise_def)

lemma quiet_method1: "quiet st (snd (method1 src st))"
  by (simp add: method1_def quiet_emit_noise noise_def split: option.splits sum.splits)

lemma quiet_method2: "quiet st (snd (method2 src st))"
  by (simp add: method2_def quiet_emit_noise noise_def split: option.splits sum.splits)

lemma quiet_method3: "quiet st (snd (method3 src st))"
  by (simp add: method3_def quiet_emit_noise noise_def split: option.splits sum.splits)

lemma quiet_method4: "quiet st (snd (method4 src st))"
  by (simp add: method4_def quiet_emit_noise noise_def split: option.splits sum.splits)

lemma quiet_temperature_try: "quiet st (snd (temperature_try src st))"
proof -
  obtain r1 s1 where m1: "method1 src st = (r1, s1)" by (cases "method1 src st")
  obtain r2 s2 where m2: "method2 src s1 = (r2, s2)" by (cases "method2 src s1")
  obtain r3 s3 where m3: "method3 src s2 = (r3, s3)" by (cases "method3 src s2")
  obtain r4 s4 where m4: "method4 src s3 = (r4, s4)" by (cases "method4 src s3")
  have q1: "quiet st s1" using quiet_method1 [of st src] m1 by simp
  have q2: "quiet st s2" using quiet_method2 [of s1 src] m2 q1 quiet_trans by fastforce
  have q3: "quiet st s3" using quiet_method3 [of s2 src] m3 q2 quiet_trans by fastforce
  have q4: "quiet st s4" using quiet_method4 [of s3 src] m4 q3 quiet_trans by fastforce
  show ?thesis
    by (simp add: temperature_try_def m1 m2 m3 m4 q1 q2 q3 q4 split: sum.splits option.splits)
qed

lemma quiet_get_cpu_temperature: "quiet st (snd (get_cpu_temperature src st))"
proof -
  obtain r s where t: "temperature_try src st = (r, s)" by (cases "temperature_try src st")
  have q: "quiet st s" using quiet_temperature_try [of st src] t by simp
  have "quiet st (emit (Log (Error_cpu_temperature e)) s)" for e
    using q quiet_emit_noise [of "Log (Error_cpu_temperature e)" s] quiet_trans
    by (fastforce simp: noise_def)
  then show ?thesis
    using q by (simp add: get_cpu_temperature_def t split: sum.splits)
qed

lemma settings_prev [simp]: "settings (st\<lparr>prev_network_bytes := c\<rparr>) = settings st"
  by (simp add: settings_def)

lemma quiet_sampled: "quiet st st' \<Longrightarrow> sampled st st'"
  by (simp add: quiet_def sampled_def)

lemma sampled_refl [simp]: "sampled st st"
  by (simp add: sampled_def)

lemma sampled_trans: "sampled a b \<Longrightarrow> sampled b c \<Longrightarrow> sampled a c"
  by (simp add: sampled_def)

lemma sampled_advance [simp]: "sampled st (advance st)"
  by (simp add: sampled_def)

lemma sampled_emit_Log [simp]: "sampled st (emit (Log r) st)"
  by (simp add: sampled_def)

lemma get_network_speed_state:
  "snd (get_network_speed w st) =
     (case w_net_io w (clock st) of
        Inl e \<Rightarrow> advance st
      | Inr c \<Rightarrow>
          if alert_interval st = 0 then advance st
          else emit (Store_prev c) (advance st\<lparr>prev_network_bytes := c\<rparr>))"
  by (simp add: get_network_speed_def network_speed_try_def get_network_bytes_def truediv_def
      advance_def split: sum.splits)

lemma sampled_get_network_speed: "sampled st (snd (get_network_speed w st))"
  by (simp add: get_network_speed_state sampled_def split: sum.splits)


lemma sampled_get_system_metrics: "sampled st (snd (get_system_metrics w st))"
proof -
  obtain t s1 where T:
    "get_cpu_temperature (temp_obs (w_sample w (clock st))) (advance st) = (t, s1)"
    by (cases "get_cpu_temperature (temp_obs (w_sample w (clock st))) (advance st)")
  obtain v s2 where N: "get_network_speed w s1 = (v, s2)"
    by (cases "get_network_speed w s1")
  have "quiet (advance st) s1"
    using quiet_get_cpu_temperature [of "advance st" "temp_obs (w_sample w (clock st))"] T
    by simp
  then have q1: "sampled st s1"
    using quiet_sampled sampled_trans sampled_advance by blast
  have "sampled s1 s2"
    using sampled_get_network_speed [of s1 w] N by simp
  then have q2: "sampled st s2"
    using q1 sampled_trans by blast
  have q0: "sampled st (emit (Log r) (advance st))" for r
    by (simp add: sampled_def)
  show ?thesis
    by (simp add: get_system_metrics_def system_metrics_try_def Let_def T N q2 q0
        split: sum.splits prod.splits)
qed

lemma quiet_disk_usage_loop: "quiet st (snd (disk_usage_loop ps d st))"
proof (induction ps arbitrary: d st)
  case Nil
  show ?case by simp
next
  case (Cons p ps)
  have e: "quiet st (snd (disk_usage_loop ps d' (emit (Log r) st)))" for d' r
  proof -
    have "quiet st (emit (Log r) st)"
      by (rule quiet_emit_noise) (simp add: noise_def)
    moreover have "quiet (emit (Log r) st) (snd (disk_usage_loop ps d' (emit (Log r) st)))"
      by (rule Cons.IH)
    ultimately show ?thesis by (rule quiet_trans)
  qed
  show ?case
    by (simp add: Cons.IH e split: sum.splits prod.splits)
qed

lemma quiet_disk_usage_loop_pair: "disk_usage_loop ps d st = (r, s) \<Longrightarrow> quiet st s"
  using quiet_disk_usage_loop [of st ps d] by simp

lemma sampled_get_disk_usage: "sampled st (snd (get_disk_usage w st))"
proof -
  have "sampled st s" if "disk_usage_loop ps [] (advance st) = (r, s)" for ps r s
    using quiet_disk_usage_loop_pair [OF that] quiet_sampled sampled_trans sampled_advance
    by blast
  then show ?thesis
    by (auto simp: get_disk_usage_def split: sum.splits prod.splits)
qed


lemma settings_fields:
  "settings a = settings b \<Longrightarrow>
     threshold a = threshold b \<and> alert_interval a = alert_interval b
     \<and> status_interval a = status_interval b"
  by (simp add: settings_def)

lemma sampled_get_system_metrics_pair:
  "get_system_metrics w st = (mt, s) \<Longrightarrow> sampled st s"
  using sampled_get_system_metrics [of st w] by simp

lemma sampled_get_disk_usage_pair:
  "get_disk_usage w st = (dr, s) \<Longrightarrow> sampled st s"
  using sampled_get_disk_usage [of st w] by simp

lemma send_returns: "fst (send_telegram_message w t m st) = Inr ()"
  by (simp add: send_telegram_message_def split: prod.splits sum.splits)

text \<open>What one call of \<^verbatim>\<open>send_telegram_message\<close> adds to the trace, after its two samples.\<close>

lemma send_trace:
  assumes M: "get_system_metrics w (emit (Send_called t m) st) = (mt, s1)"
    and D: "get_disk_usage w s1 = (dr, s2)"
  shows "trace (snd (send_telegram_message w t m st)) =
           trace s2 @
           (case dr of
              Inl e \<Rightarrow> [Log (Error_sending e)]
            | Inr d \<Rightarrow>
                [Post (bot_token s2) (chat_id s2)
                   \<lparr>msg_icon = (if m = Alert then Warning_icon else Info_icon),
                    msg_title = t, msg_server = server_name s2, msg_os = os_info s2,
                    msg_arch = arch_info s2,
                    msg_time = w_now w (clock (emit (Send_called t m) st)),
                    msg_metrics = mt, msg_disk_info = d\<rparr>,
                 Log (case w_post w (clock s2) of
                        Inl e \<Rightarrow> Error_sending e
                      | Inr code \<Rightarrow>
                          if code = 200 then Info_message_sent t else Error_status_code code)])"
  by (simp add: send_telegram_message_def send_try_def Let_def M D split: sum.splits)

lemma send_settings: "settings (snd (send_telegram_message w t m st)) = settings st"
proof -
  obtain mt s1 where M: "get_system_metrics w (emit (Send_called t m) st) = (mt, s1)"
    by (cases "get_system_metrics w (emit (Send_called t m) st)")
  obtain dr s2 where D: "get_disk_usage w s1 = (dr, s2)"
    by (cases "get_disk_usage w s1")
  have "settings s2 = settings st"
    using sampled_get_system_metrics_pair [OF M] sampled_get_disk_usage_pair [OF D]
    by (simp add: sampled_def)
  then show ?thesis
    by (simp add: send_telegram_message_def send_try_def Let_def M D split: sum.splits)
qed

lemma send_sends:
  "sends_of (trace (snd (send_telegram_message w t m st))) = sends_of (trace st) @ [(t, m)]"
proof -
  obtain mt s1 where M: "get_system_metrics w (emit (Send_called t m) st) = (mt, s1)"
    by (cases "get_system_metrics w (emit (Send_called t m) st)")
  obtain dr s2 where D: "get_disk_usage w s1 = (dr, s2)"
    by (cases "get_disk_usage w s1")
  have "sends_of (trace s2) = sends_of (trace st) @ [(t, m)]"
    using sampled_get_system_metrics_pair [OF M] sampled_get_disk_usage_pair [OF D]
    by (simp add: sampled_def)
  then show ?thesis
    by (simp add: send_trace [OF M D] split: sum.splits)
qed

lemma check_disks_first_offender:
  "check_disks w d st =
     (case first_offender (threshold st) d of
        None \<Rightarrow> (Inr (), st)
      | Some (mount, usage) \<Rightarrow> send_telegram_message w (disk_title mount) Alert st)"
  by (induction d) (auto simp: first_offender_def disk_title_def)

lemma and_then_cond_send:
  "and_then (if c then send_telegram_message w t m s else (Inr (), s)) f =
     f (if c then snd (send_telegram_message w t m s) else s)"
  using send_returns [of w t m s]
  by (cases "send_telegram_message w t m s") (simp add: and_then_def)

text \<open>The calls \<^verbatim>\<open>check_thresholds\<close> makes, from its snapshot: RAM, swap, CPU, then the
  first offending mount.\<close>

lemma check_thresholds_sends:
  assumes M: "get_system_metrics w st = (mt, s1)"
    and D: "get_disk_usage w s1 = (Inr d, s2)"
  shows "sends_of (trace (snd (check_thresholds w st))) =
           sends_of (trace st)
           @ (if get_or_0 memory_percent mt \<ge> threshold st
              then [(''High RAM Usage Alert'', Alert)] else [])
           @ (if get_or_0 swap_percent mt \<ge> threshold st
              then [(''High Swap Usage Alert'', Alert)] else [])
           @ (if get_or_0 cpu_percent mt \<ge> threshold st
              then [(''High CPU Usage Alert'', Alert)] else [])
           @ (case first_offender (threshold st) d of
                None \<Rightarrow> []
              | Some (mount, usage) \<Rightarrow> [(disk_title mount, Alert)])"
proof -
  have s2: "settings s2 = settings st" "sends_of (trace s2) = sends_of (trace st)"
    using sampled_get_system_metrics_pair [OF M] sampled_get_disk_usage_pair [OF D]
    by (simp_all add: sampled_def)
  define s3 where "s3 = (if get_or_0 memory_percent mt \<ge> threshold s2
     then snd (send_telegram_message w ''High RAM Usage Alert'' Alert s2) else s2)"
  define s4 where "s4 = (if get_or_0 swap_percent mt \<ge> threshold s3
     then snd (send_telegram_message w ''High Swap Usage Alert'' Alert s3) else s3)"
  define s5 where "s5 = (if get_or_0 cpu_percent mt \<ge> threshold s4
     then snd (send_telegram_message w ''High CPU Usage Alert'' Alert s4) else s4)"
  have t2: "threshold s2 = threshold st"
    using settings_fields [OF s2(1)] by simp
  have s3: "settings s3 = settings st"
    "sends_of (trace s3) = sends_of (trace st)
       @ (if get_or_0 memory_percent mt \<ge> threshold st
          then [(''High RAM Usage Alert'', Alert)] else [])"
    using s2 t2 by (simp_all add: s3_def send_settings send_sends)
  have t3: "threshold s3 = threshold st"
    using settings_fields [OF s3(1)] by simp
  have s4: "settings s4 = settings st"
    "sends_of (trace s4) = sends_of (trace s3)
       @ (if get_or_0 swap_percent mt \<ge> threshold st
          then [(''High Swap Usage Alert'', Alert)] else [])"
    using s3(1) t3 by (simp_all add: s4_def send_settings send_sends)
  have t4: "threshold s4 = threshold st"
    using settings_fields [OF s4(1)] by simp
  have s5: "settings s5 = settings st"
    "sends_of (trace s5) = sends_of (trace s4)
       @ (if get_or_0 cpu_percent mt \<ge> threshold st
          then [(''High CPU Usage Alert'', Alert)] else [])"
    using s4(1) t4 by (simp_all add: s5_def send_settings send_sends)
  have t5: "threshold s5 = threshold st"
    using settings_fields [OF s5(1)] by simp
  have c: "check_thresholds w st = check_disks w d s5"
    by (simp add: check_thresholds_def M D and_then_cond_send s3_def s4_def s5_def)
  have "sends_of (trace (snd (check_disks w d s5))) =
          sends_of (trace s5)
          @ (case first_offender (threshold st) d of
               None \<Rightarrow> []
             | Some (mount, usage) \<Rightarrow> [(disk_title mount, Alert)])"
    by (simp add: check_disks_first_offender t5 send_sends split: option.splits)
  then show ?thesis
    by (simp add: c s5(2) s4(2) s3(2))
qed

text \<open>The sample when the four psutil calls answer: every field but temperature and network
  speed is a function of the answers.\<close>

lemma get_system_metrics_answered:
  assumes "psutil_cpu_percent (w_sample w (clock st)) = Inr cpu"
    and "psutil_cpu_freq (w_sample w (clock st)) = Inr freq"
    and "psutil_virtual_memory (w_sample w (clock st)) = Inr (mem_total, mem_used, mem_percent)"
    and "psutil_swap_memory (w_sample w (clock st)) = Inr (swp_used, swp_percent)"
  shows "fst (get_system_metrics w st) =
           Some \<lparr>cpu_percent = cpu,
                 cpu_freq = map_option (\<lambda>mhz. mhz / 1000) freq,
                 cpu_temp = fst (get_cpu_temperature (temp_obs (w_sample w (clock st))) (advance st)),
                 memory_total = gigabytes mem_total,
                 memory_used = gigabytes mem_used,
                 memory_percent = mem_percent,
                 swap_used = gigabytes swp_used,
                 swap_percent = swp_percent,
                 network_speed =
                   fst (get_network_speed w
                         (snd (get_cpu_temperature (temp_obs (w_sample w (clock st)))
                                (advance st))))\<rparr>"
  using assms
  by (simp add: get_system_metrics_def system_metrics_try_def Let_def split: prod.splits)


lemma get_disk_usage_answered:
  assumes "w_partitions w (clock st) = Inr ps"
  shows "fst (get_disk_usage w st) = Inr (fst (disk_usage_loop ps [] (advance st)))"
  using assms by (simp add: get_disk_usage_def split: prod.splits)

lemma method1_fst:
  "fst (method1 src st) =
     (case sensors_temperatures src of
        None \<Rightarrow> Inr None
      | Some (Inl e) \<Rightarrow> Inl e
      | Some (Inr temps) \<Rightarrow> Inr (scan_items temps))"
  by (cases "sensors_temperatures src")
     (auto simp: method1_def split: sum.splits)

lemma method1_snd:
  "snd (method1 src st) =
     (if sensors_temperatures src = None then st else emit Call_sensors_temperatures st)"
  by (simp add: method1_def split: option.splits sum.splits)

lemma method4_fst: "fst (method4 src st) = fst (method4 src st')"
  by (simp add: method4_def split: sum.splits)

lemma method4_snd: "snd (method4 src st) = emit Run_sensors st"
  by (simp add: method4_def split: sum.splits)

lemma get_network_speed_answered:
  assumes "alert_interval st \<noteq> 0" and "w_net_io w (clock st) = Inr cur"
  shows "get_network_speed w st =
           (NetSpeed
              (of_int (fst cur - fst (prev_network_bytes st)) / alert_interval st / 1024)
              (of_int (snd cur - snd (prev_network_bytes st)) / alert_interval st / 1024),
            emit (Store_prev cur) (advance st\<lparr>prev_network_bytes := cur\<rparr>))"
  using assms
  by (simp add: get_network_speed_def network_speed_try_def get_network_bytes_def truediv_def
      advance_def)

lemma quiet_get_cpu_temperature_pair:
  "get_cpu_temperature src st = (t, s) \<Longrightarrow> quiet st s"
  using quiet_get_cpu_temperature [of st src] by simp

section \<open>The threshold check, unfolded\<close>

lemma alert_if_settings [simp]: "settings (alert_if w c t s) = settings s"
  by (simp add: alert_if_def send_settings)

lemma alert_if_sends [simp]:
  "sends_of (trace (alert_if w c t s)) = sends_of (trace s) @ (if c then [(t, Alert)] else [])"
  by (simp add: alert_if_def send_sends)

lemma check_thresholds_unfold:
  assumes M: "get_system_metrics w st = (mt, s1)"
    and D: "get_disk_usage w s1 = (Inr d, s2)"
  shows "check_thresholds w st =
           check_disks w d
             (alert_if w (get_or_0 cpu_percent mt \<ge> threshold st) ''High CPU Usage Alert''
               (alert_if w (get_or_0 swap_percent mt \<ge> threshold st) ''High Swap Usage Alert''
                 (alert_if w (get_or_0 memory_percent mt \<ge> threshold st)
                    ''High RAM Usage Alert'' s2)))"
proof -
  have s2: "settings s2 = settings st"
    using sampled_get_system_metrics_pair [OF M] sampled_get_disk_usage_pair [OF D]
    by (simp add: sampled_def)
  have t: "threshold s = threshold st" if "settings s = settings s2" for s
    using that s2 settings_fields [of s st] by simp
  show ?thesis
    by (simp add: check_thresholds_def M D and_then_cond_send t alert_if_def [symmetric])
qed

lemma check_disks_settings: "settings (snd (check_disks w d s)) = settings s"
  by (simp add: check_disks_first_offender send_settings split: option.splits)

lemma check_thresholds_settings: "settings (snd (check_thresholds w st)) = settings st"
proof -
  obtain mt s1 where M: "get_system_metrics w st = (mt, s1)"
    by (cases "get_system_metrics w st")
  obtain dr s2 where D: "get_disk_usage w s1 = (dr, s2)"
    by (cases "get_disk_usage w s1")
  have s2: "settings s2 = settings st"
    using sampled_get_system_metrics_pair [OF M] sampled_get_disk_usage_pair [OF D]
    by (simp add: sampled_def)
  show ?thesis
  proof (cases dr)
    case (Inl e)
    then show ?thesis
      using s2 by (simp add: check_thresholds_def M D)
  next
    case (Inr d)
    then show ?thesis
      using s2 check_thresholds_unfold [OF M D [unfolded Inr]]
      by (simp add: check_disks_settings)
  qed
qed

section \<open>The loops\<close>


lemma time_sleep_settings [simp]: "settings (snd (time_sleep x s)) = settings s"
  by (simp add: time_sleep_def)

lemma alert_iteration_unfold:
  assumes "0 \<le> alert_interval st"
  shows "alert_iteration w st =
           (Inr (),
            emit (Sleep (alert_interval st))
              (case fst (check_thresholds w st) of
                 Inl e \<Rightarrow> emit (Log (Error_alert_monitoring e)) (snd (check_thresholds w st))
               | Inr u \<Rightarrow> snd (check_thresholds w st)))"
proof -
  obtain r s where c: "check_thresholds w st = (r, s)"
    by (cases "check_thresholds w st")
  have "alert_interval s = alert_interval st"
    using check_thresholds_settings [of w st] settings_fields [of s st] c by simp
  then have a: "alert_interval s = alert_interval st"
    "alert_interval (emit (Log l) s) = alert_interval st" for l
    by (simp_all add: emit_def)
  show ?thesis
    using assms a
    by (cases r) (simp_all add: alert_iteration_def and_then_def c time_sleep_def Let_def)
qed

lemma status_iteration_unfold:
  assumes "0 \<le> status_interval st"
  shows "status_iteration w st =
           (Inr (),
            emit (Sleep (status_interval st))
              (snd (send_telegram_message w ''Regular Status Update'' Status st)))"
proof -
  obtain r s where c: "send_telegram_message w ''Regular Status Update'' Status st = (r, s)"
    by (cases "send_telegram_message w ''Regular Status Update'' Status st")
  have r: "r = Inr ()"
    using send_returns [of w "''Regular Status Update''" Status st] c by simp
  have "status_interval s = status_interval st"
    using send_settings [of w "''Regular Status Update''" Status st] settings_fields [of s st] c
    by simp
  then show ?thesis
    using assms by (simp add: status_iteration_def and_then_def c r time_sleep_def)
qed

lemma alert_iteration_settings:
  "0 \<le> alert_interval st \<Longrightarrow> settings (snd (alert_iteration w st)) = settings st"
  by (simp add: alert_iteration_unfold check_thresholds_settings split: sum.splits)

lemma status_iteration_settings:
  "0 \<le> status_interval st \<Longrightarrow> settings (snd (status_iteration w st)) = settings st"
  by (simp add: status_iteration_unfold send_settings)

lemma alert_monitor_runs: "0 \<le> alert_interval st \<Longrightarrow> fst (alert_monitor n w st) = Inr ()"
proof (induction n arbitrary: st)
  case 0
  show ?case by simp
next
  case (Suc n)
  obtain s where i: "alert_iteration w st = (Inr (), s)"
    using alert_iteration_unfold [OF Suc.prems, of w] by simp
  have "alert_interval s = alert_interval st"
    using alert_iteration_settings [OF Suc.prems, of w] settings_fields [of s st] i by simp
  then show ?case
    using Suc.IH [of s] Suc.prems by (simp add: i)
qed

lemma status_update_runs: "0 \<le> status_interval st \<Longrightarrow> fst (status_update n w st) = Inr ()"
proof (induction n arbitrary: st)
  case 0
  show ?case by simp
next
  case (Suc n)
  obtain s where i: "status_iteration w st = (Inr (), s)"
    using status_iteration_unfold [OF Suc.prems, of w] by simp
  have "status_interval s = status_interval st"
    using status_iteration_settings [OF Suc.prems, of w] settings_fields [of s st] i by simp
  then show ?case
    using Suc.IH [of s] Suc.prems by (simp add: i)
qed


section \<open>Counting the stores of the previous counters\<close>

lemma store_count_emit [simp]:
  "store_count (emit e s) = store_count s + (case e of Store_prev c \<Rightarrow> 1 | _ \<Rightarrow> 0)"
  by (cases e) (simp_all add: store_count_def)

lemma store_count_advance [simp]: "store_count (advance s) = store_count s"
  by (simp add: store_count_def)

lemma send_count_emit [simp]:
  "send_count (emit e s) = send_count s + (case e of Send_called t m \<Rightarrow> 1 | _ \<Rightarrow> 0)"
  by (cases e) (simp_all add: send_count_def)


lemma snd_get_system_metrics_answered:
  assumes "\<not> isl (psutil_cpu_percent (w_sample w (clock st)))"
    and "\<not> isl (psutil_cpu_freq (w_sample w (clock st)))"
    and "\<not> isl (psutil_virtual_memory (w_sample w (clock st)))"
    and "\<not> isl (psutil_swap_memory (w_sample w (clock st)))"
  shows "snd (get_system_metrics w st) =
           snd (get_network_speed w
                 (snd (get_cpu_temperature (temp_obs (w_sample w (clock st))) (advance st))))"
  using assms
  by (auto simp: get_system_metrics_def system_metrics_try_def Let_def
      split: prod.splits sum.splits)




lemma bal_refl [simp]: "bal k s s"
  by (simp add: bal_def)








lemma clock_get_system_metrics: "clock st < clock (snd (get_system_metrics w st))"
proof -
  define s1 where "s1 = snd (get_cpu_temperature (temp_obs (w_sample w (clock st))) (advance st))"
  have "quiet (advance st) s1"
    unfolding s1_def by (rule quiet_get_cpu_temperature)
  then have "clock s1 = Suc (clock st)"
    by (simp add: quiet_def)
  moreover have "clock (snd (get_network_speed w s1)) = Suc (clock s1)"
    by (simp add: get_network_speed_state split: sum.splits)
  ultimately have "clock st < clock (snd (get_network_speed w s1))"
    by simp
  then show ?thesis
    unfolding s1_def
    by (auto simp: get_system_metrics_def system_metrics_try_def Let_def
        split: prod.splits sum.splits)
qed


section \<open>The outcomes of the rate computation\<close>

lemma get_network_speed_fst:
  "fst (get_network_speed w s) =
     (case w_net_io w (clock s) of
        Inl e \<Rightarrow> NetNA
      | Inr cur \<Rightarrow>
          if alert_interval s = 0 then NetNA
          else NetSpeed
                 (of_int (fst cur - fst (prev_network_bytes s)) / alert_interval s / 1024)
                 (of_int (snd cur - snd (prev_network_bytes s)) / alert_interval s / 1024))"
  by (simp add: get_network_speed_def network_speed_try_def get_network_bytes_def truediv_def
      advance_def split: sum.splits)

lemma get_network_speed_failed:
  assumes "alert_interval st = 0 \<or> isl (w_net_io w (clock st))"
  shows "get_network_speed w st = (NetNA, advance st)"
  using assms
  by (auto simp: get_network_speed_def network_speed_try_def get_network_bytes_def truediv_def
      advance_def split: sum.splits)

section \<open>Sleeps and sends of the loops\<close>

lemma send_sleeps:
  "sleeps_of (trace (snd (send_telegram_message w t m st))) = sleeps_of (trace st)"
proof -
  obtain mt s1 where M: "get_system_metrics w (emit (Send_called t m) st) = (mt, s1)"
    by (cases "get_system_metrics w (emit (Send_called t m) st)")
  obtain dr s2 where D: "get_disk_usage w s1 = (dr, s2)"
    by (cases "get_disk_usage w s1")
  have "sleeps_of (trace s2) = sleeps_of (trace st)"
    using sampled_get_system_metrics_pair [OF M] sampled_get_disk_usage_pair [OF D]
    by (simp add: sampled_def)
  then show ?thesis
    by (simp add: send_trace [OF M D] split: sum.splits)
qed

lemma alert_if_sleeps [simp]: "sleeps_of (trace (alert_if w c t s)) = sleeps_of (trace s)"
  by (simp add: alert_if_def send_sleeps)








section \<open>The except branch of the sample\<close>

lemma get_system_metrics_caught:
  assumes "isl (psutil_cpu_percent (w_sample w (clock st)))
           \<or> isl (psutil_cpu_freq (w_sample w (clock st)))
           \<or> isl (psutil_virtual_memory (w_sample w (clock st)))
           \<or> isl (psutil_swap_memory (w_sample w (clock st)))"
  shows "\<exists>e. system_metrics_try w st = (Inl e, advance st)
             \<and> get_system_metrics w st = (None, emit (Log (Error_system_metrics e)) (advance st))"
  using assms
  by (auto simp: get_system_metrics_def system_metrics_try_def Let_def
      split: prod.splits sum.splits)

section \<open>The claims\<close>

subsection \<open>C3: the network rate and the stored counters\<close>

text \<open>
  C3, as claimed, fails: the previous counters are not replaced whatever the outcome of
  the call. The assignment stands inside the \<^verbatim>\<open>try\<close> block, after the two divisions. A
  call that fails stores nothing: with the counters (100, 200) stored and an interval of
  10 seconds, a call that cannot read the counters returns \<^verbatim>\<open>"N/A"\<close> and leaves
  (100, 200); with an interval of zero, a call that reads (1100, 1700) returns \<^verbatim>\<open>"N/A"\<close>
  and leaves (100, 200) as well.
\<close>

theorem get_network_speed_failure_stores_nothing:
  "0 < alert_interval monitor0
   \<and> fst (get_network_speed deaf_world monitor0) = NetNA
   \<and> prev_network_bytes (snd (get_network_speed deaf_world monitor0)) = (100, 200)
   \<and> stores_of (trace (snd (get_network_speed deaf_world monitor0))) = []
   \<and> w_net_io calm_world (clock (monitor0\<lparr>alert_interval := 0\<rparr>)) = Inr (1100, 1700)
   \<and> fst (get_network_speed calm_world (monitor0\<lparr>alert_interval := 0\<rparr>)) = NetNA
   \<and> prev_network_bytes (snd (get_network_speed calm_world (monitor0\<lparr>alert_interval := 0\<rparr>))) =
       (100, 200)
   \<and> stores_of (trace (snd (get_network_speed calm_world (monitor0\<lparr>alert_interval := 0\<rparr>)))) = []"
  by (simp add: get_network_speed_def network_speed_try_def get_network_bytes_def truediv_def
      advance_def deaf_world_def calm_world_def monitor0_def)

text \<open>
  C3, amended. The elapsed time of the computation is \<^verbatim>\<open>self.alert_interval\<close>, the
  configured interval, not a measured time. When it is not zero (in particular when it
  is positive) and the counters are read (\<open>cur\<close>), \<^verbatim>\<open>get_network_speed\<close> returns the
  rendering of the two rates \<open>(cur - previous) / elapsed\<close> (each shown in KB, that is
  divided by 1024), and \<^verbatim>\<open>prev_network_bytes\<close> is assigned \<open>cur\<close> exactly once: one more
  store in the trace, and the field holds \<open>cur\<close> afterwards. When the interval is zero or
  the counters cannot be read, the call returns \<^verbatim>\<open>"N/A"\<close> and the previous counters
  stay as they were: nothing is stored.
\<close>

theorem get_network_speed_outcomes:
  "(alert_interval st \<noteq> 0 \<and> w_net_io w (clock st) = Inr cur \<longrightarrow>
      get_network_speed w st =
        (NetSpeed
           (of_int (fst cur - fst (prev_network_bytes st)) / alert_interval st / 1024)
           (of_int (snd cur - snd (prev_network_bytes st)) / alert_interval st / 1024),
         emit (Store_prev cur) (advance st\<lparr>prev_network_bytes := cur\<rparr>))
      \<and> prev_network_bytes (snd (get_network_speed w st)) = cur
      \<and> stores_of (trace (snd (get_network_speed w st))) = stores_of (trace st) @ [cur])
   \<and> (alert_interval st = 0 \<or> isl (w_net_io w (clock st)) \<longrightarrow>
      get_network_speed w st = (NetNA, advance st)
      \<and> prev_network_bytes (snd (get_network_speed w st)) = prev_network_bytes st
      \<and> stores_of (trace (snd (get_network_speed w st))) = stores_of (trace st))"
proof -
  have a: "get_network_speed w st =
        (NetSpeed
           (of_int (fst cur - fst (prev_network_bytes st)) / alert_interval st / 1024)
           (of_int (snd cur - snd (prev_network_bytes st)) / alert_interval st / 1024),
         emit (Store_prev cur) (advance st\<lparr>prev_network_bytes := cur\<rparr>))"
    if "alert_interval st \<noteq> 0" and "w_net_io w (clock st) = Inr cur"
    using that by (rule get_network_speed_answered)
  have b: "get_network_speed w st = (NetNA, advance st)"
    if "alert_interval st = 0 \<or> isl (w_net_io w (clock st))"
    using that by (rule get_network_speed_failed)
  show ?thesis
    using a b by (auto simp: emit_def advance_def)
qed

text \<open>The example of the specification: (100, 200), then (1100, 1700), 10 seconds apart:
  100 and 150 bytes per second, and (1100, 1700) stored once. And the two failing calls.\<close>

theorem get_network_speed_outcomes_witness:
  "alert_interval monitor0 \<noteq> 0 \<and> w_net_io calm_world (clock monitor0) = Inr (1100, 1700)
   \<and> fst (get_network_speed calm_world monitor0) = NetSpeed (100 / 1024) (150 / 1024)
   \<and> prev_network_bytes (snd (get_network_speed calm_world monitor0)) = (1100, 1700)
   \<and> stores_of (trace (snd (get_network_speed calm_world monitor0))) = [(1100, 1700)]
   \<and> isl (w_net_io deaf_world (clock monitor0))
   \<and> get_network_speed deaf_world monitor0 = (NetNA, advance monitor0)
   \<and> get_network_speed calm_world (monitor0\<lparr>alert_interval := 0\<rparr>) =
       (NetNA, advance (monitor0\<lparr>alert_interval := 0\<rparr>))"
proof -
  have a: "alert_interval monitor0 \<noteq> 0" "alert_interval monitor0 = 10"
    "prev_network_bytes monitor0 = (100, 200)" "trace monitor0 = []"
    by (simp_all add: monitor0_def)
  have b: "w_net_io calm_world (clock monitor0) = Inr (1100, 1700)"
    by (simp add: calm_world_def)
  have c: "isl (w_net_io deaf_world (clock monitor0))"
    by (simp add: deaf_world_def)
  have d: "alert_interval (monitor0\<lparr>alert_interval := 0\<rparr>) = 0"
    by simp
  show ?thesis
    using get_network_speed_outcomes [of monitor0 calm_world "(1100, 1700)"]
      get_network_speed_outcomes [of monitor0 deaf_world]
      get_network_speed_outcomes [of "monitor0\<lparr>alert_interval := 0\<rparr>" calm_world]
      a b c d
    by simp
qed

subsection \<open>C4: a zero interval\<close>

text \<open>
  C4. When \<^verbatim>\<open>self.alert_interval\<close> is zero, \<^verbatim>\<open>get_network_speed\<close> returns \<^verbatim>\<open>"N/A"\<close>: the
  division raises \<^verbatim>\<open>ZeroDivisionError\<close> inside the \<^verbatim>\<open>try\<close> block (unless reading the
  counters has raised before), the bare \<^verbatim>\<open>except\<close> catches it, and nothing is stored.
\<close>

theorem get_network_speed_zero_interval:
  assumes "alert_interval st = 0"
  shows "fst (get_network_speed w st) = NetNA
         \<and> fst (network_speed_try w st) =
             Inl (case w_net_io w (clock st) of Inl e \<Rightarrow> e | Inr c \<Rightarrow> ZeroDivisionError)
         \<and> prev_network_bytes (snd (get_network_speed w st)) = prev_network_bytes st
         \<and> stores_of (trace (snd (get_network_speed w st))) = stores_of (trace st)"
  using assms
  by (simp add: get_network_speed_def network_speed_try_def get_network_bytes_def truediv_def
      advance_def split: sum.splits)

theorem get_network_speed_zero_interval_witness:
  "alert_interval (monitor0\<lparr>alert_interval := 0\<rparr>) = 0
   \<and> fst (get_network_speed calm_world (monitor0\<lparr>alert_interval := 0\<rparr>)) = NetNA
   \<and> fst (network_speed_try calm_world (monitor0\<lparr>alert_interval := 0\<rparr>)) = Inl ZeroDivisionError"
proof -
  have a: "alert_interval (monitor0\<lparr>alert_interval := 0\<rparr>) = 0" by simp
  show ?thesis
    using a get_network_speed_zero_interval [OF a, of calm_world]
    by (simp add: monitor0_def calm_world_def)
qed

subsection \<open>C1: the three percentage checks\<close>

text \<open>
  C1. Let \<^verbatim>\<open>check_thresholds\<close> take the snapshot \<open>S\<close> (and a dict of disk usages). Then it
  calls \<^verbatim>\<open>send_telegram_message\<close> with the CPU title if and only if
  \<open>cpu_percent S \<ge> threshold\<close>, with the RAM title if and only if
  \<open>memory_percent S \<ge> threshold\<close>, and with the swap title if and only if
  \<open>swap_percent S \<ge> threshold\<close>: each alert depends on its own metric only.
\<close>

theorem check_thresholds_fires_iff:
  assumes "fst (get_system_metrics w st) = Some S"
    and "fst (get_disk_usage w (snd (get_system_metrics w st))) = Inr d"
  shows "((''High CPU Usage Alert'', Alert) \<in> set (fired w st) \<longleftrightarrow> cpu_percent S \<ge> threshold st)
       \<and> ((''High RAM Usage Alert'', Alert) \<in> set (fired w st)
            \<longleftrightarrow> memory_percent S \<ge> threshold st)
       \<and> ((''High Swap Usage Alert'', Alert) \<in> set (fired w st)
            \<longleftrightarrow> swap_percent S \<ge> threshold st)"
proof -
  have M: "get_system_metrics w st = (Some S, snd (get_system_metrics w st))"
    using assms(1) by (simp add: prod_eq_iff)
  have D: "get_disk_usage w (snd (get_system_metrics w st)) =
             (Inr d, snd (get_disk_usage w (snd (get_system_metrics w st))))"
    using assms(2) by (simp add: prod_eq_iff)
  show ?thesis
    by (simp add: fired_def send_count_def check_thresholds_sends [OF M D] get_or_0_def
        disk_title_def split: option.splits)
qed

theorem check_thresholds_fires_iff_witness:
  "fst (get_system_metrics busy_world monitor0) \<noteq> None
   \<and> (''High CPU Usage Alert'', Alert) \<in> set (fired busy_world monitor0)
   \<and> (''High RAM Usage Alert'', Alert) \<in> set (fired busy_world monitor0)
   \<and> (''High Swap Usage Alert'', Alert) \<notin> set (fired busy_world monitor0)"
proof -
  obtain S where S: "fst (get_system_metrics busy_world monitor0) = Some S"
    "cpu_percent S = 90" "memory_percent S = 85" "swap_percent S = 5"
    using get_system_metrics_answered [of busy_world monitor0 90 "Some 2400" 8589934592
        4294967296 85 0 5]
    by (simp add: busy_world_def calm_world_def sample_of_def)
  obtain d where d:
    "fst (get_disk_usage busy_world (snd (get_system_metrics busy_world monitor0))) = Inr d"
    using get_disk_usage_answered [of busy_world _ four_partitions]
    by (simp add: busy_world_def calm_world_def)
  have t: "threshold monitor0 = 80" by (simp add: monitor0_def)
  show ?thesis
    using check_thresholds_fires_iff [OF S(1) d] S t by simp
qed

subsection \<open>C2: one disk alert, for the first offending mount\<close>

text \<open>
  C2. Whatever the disk usages \<open>d\<close> of the snapshot, \<^verbatim>\<open>check_thresholds\<close> calls
  \<^verbatim>\<open>send_telegram_message\<close> with a disk title at most once: not at all when no mount is at
  or over the threshold, and otherwise once, for the first such mount in the order of
  \<^verbatim>\<open>disk_usage.items()\<close>. The loop over the mounts does nothing else than this one call:
  the mounts after the first offender are not looked at.
\<close>

theorem check_thresholds_disk_alert:
  assumes "fst (get_disk_usage w (snd (get_system_metrics w st))) = Inr d"
  shows "filter (\<lambda>(t, m). is_disk_title t) (fired w st) =
           (case first_offender (threshold st) d of
              None \<Rightarrow> []
            | Some (mount, usage) \<Rightarrow> [(disk_title mount, Alert)])
         \<and> length (filter (\<lambda>(t, m). is_disk_title t) (fired w st)) \<le> 1
         \<and> check_disks w d s =
             (case first_offender (threshold s) d of
                None \<Rightarrow> (Inr (), s)
              | Some (mount, usage) \<Rightarrow> send_telegram_message w (disk_title mount) Alert s)"
proof -
  have M: "get_system_metrics w st =
             (fst (get_system_metrics w st), snd (get_system_metrics w st))"
    by simp
  have D: "get_disk_usage w (snd (get_system_metrics w st)) =
             (Inr d, snd (get_disk_usage w (snd (get_system_metrics w st))))"
    using assms by (simp add: prod_eq_iff)
  have a: "filter (\<lambda>(t, m). is_disk_title t) (fired w st) =
           (case first_offender (threshold st) d of
              None \<Rightarrow> []
            | Some (mount, usage) \<Rightarrow> [(disk_title mount, Alert)])"
    by (simp add: fired_def send_count_def check_thresholds_sends [OF M D] is_disk_title_def
        disk_title_def split: option.splits)
  have b: "length (filter (\<lambda>(t, m). is_disk_title t) (fired w st)) \<le> 1"
    unfolding a by (simp split: option.splits)
  show ?thesis
    using a b by (simp add: check_disks_first_offender)
qed

text \<open>With the four partitions and a threshold of 80: the snap mount is left out of the
  dict, \<^verbatim>\<open>/data\<close> (91%) is named, \<^verbatim>\<open>/backup\<close> (95%) is not.\<close>

theorem check_thresholds_disk_alert_witness:
  "(\<exists>d. fst (get_disk_usage busy_world (snd (get_system_metrics busy_world monitor0))) = Inr d)
   \<and> filter (\<lambda>(t, m). is_disk_title t) (fired busy_world monitor0) =
       [(''High Disk Usage Alert for /data'', Alert)]"
proof -
  obtain d where d:
    "fst (get_disk_usage busy_world (snd (get_system_metrics busy_world monitor0))) = Inr d"
    "first_offender 80 d =
       Some (''/data'', \<lparr>usage_percent = 91, usage_total = gigabytes 100,
                         usage_used = gigabytes 91, usage_free = gigabytes 9\<rparr>)"
    using get_disk_usage_answered [of busy_world _ four_partitions]
    by (simp add: busy_world_def calm_world_def four_partitions_def first_offender_def)
  have t: "threshold monitor0 = 80" by (simp add: monitor0_def)
  show ?thesis
    using check_thresholds_disk_alert [OF d(1)] d t by (auto simp: disk_title_def)
qed

subsection \<open>C5: the order of the temperature sources\<close>

text \<open>
  C5, as claimed, fails. With a thermal-zone file that is there and does not parse,
  \<^verbatim>\<open>int(f.read())\<close> raises inside the outer \<^verbatim>\<open>try\<close> and the method returns \<^verbatim>\<open>"N/A"\<close>:
  the \<^verbatim>\<open>sensors\<close> tool, which would have answered 47.0, is never run.
\<close>

theorem get_cpu_temperature_no_fall_through:
  "fst (get_cpu_temperature bad_zone_sources monitor0) = TempNA
   \<and> fst (method4 bad_zone_sources monitor0) = Some (TempText (''47.0'' @ degree_sign @ ''C''))
   \<and> trace (snd (get_cpu_temperature bad_zone_sources monitor0)) =
       [Open_thermal_zone, Log (Error_cpu_temperature ValueError)]"
  by (simp add: get_cpu_temperature_def temperature_try_def method1_def method2_def method4_def
      bad_zone_sources_def tool_sources_def no_temp_def monitor0_def degree_sign_def strip_def
      is_space_def emit_def)

text \<open>
  C5, amended. The sources are tried in the order (a) sensor API, (b) thermal zone, (c)
  \<^verbatim>\<open>vcgencmd\<close>, (d) \<^verbatim>\<open>sensors\<close>, and the first one that yields a value gives the result;
  the sources after it are not touched (the trace shows the probes made). A source goes
  on to the next when it is not there, or, for (a), when no entry has a label holding
  \<^verbatim>\<open>core\<close>, \<^verbatim>\<open>cpu\<close> or \<^verbatim>\<open>package\<close> in lower case. A source (a), (b) or (c) that is there
  and raises ends the method: \<^verbatim>\<open>"N/A"\<close>, one log record, no later source tried. A
  failing (d) gives \<^verbatim>\<open>"N/A"\<close>.
\<close>

theorem get_cpu_temperature_priority:
  "(fst (method1 src st) = Inr (Some t) \<longrightarrow>
      get_cpu_temperature src st = (t, emit Call_sensors_temperatures st))
   \<and> (fst (method1 src st) = Inr None \<and> thermal_zone0 src = Some (Inr millis) \<longrightarrow>
      get_cpu_temperature src st =
        (TempCelsius (of_int millis / 1000), emit Open_thermal_zone (snd (method1 src st))))
   \<and> (fst (method1 src st) = Inr None \<and> thermal_zone0 src = None
        \<and> vcgencmd src = Some (Inr out) \<longrightarrow>
      get_cpu_temperature src st =
        (TempText (strip (remove_from ''temp='' 0 out)),
         emit Run_vcgencmd (snd (method1 src st))))
   \<and> (fst (method1 src st) = Inr None \<and> thermal_zone0 src = None \<and> vcgencmd src = None \<longrightarrow>
      get_cpu_temperature src st =
        (case fst (method4 src st) of Some t' \<Rightarrow> t' | None \<Rightarrow> TempNA,
         emit Run_sensors (snd (method1 src st))))
   \<and> (sensors_temperatures src = Some (Inl e) \<longrightarrow>
      get_cpu_temperature src st =
        (TempNA, emit (Log (Error_cpu_temperature e)) (emit Call_sensors_temperatures st)))
   \<and> (fst (method1 src st) = Inr None \<and> thermal_zone0 src = Some (Inl e) \<longrightarrow>
      get_cpu_temperature src st =
        (TempNA,
         emit (Log (Error_cpu_temperature e)) (emit Open_thermal_zone (snd (method1 src st)))))
   \<and> (fst (method1 src st) = Inr None \<and> thermal_zone0 src = None
        \<and> vcgencmd src = Some (Inl e) \<longrightarrow>
      get_cpu_temperature src st =
        (TempNA, emit (Log (Error_cpu_temperature e)) (emit Run_vcgencmd (snd (method1 src st)))))
   \<and> fst (method1 src st) =
       (case sensors_temperatures src of
          None \<Rightarrow> Inr None
        | Some (Inl e') \<Rightarrow> Inl e'
        | Some (Inr temps) \<Rightarrow> Inr (scan_items temps))
   \<and> snd (method1 src st) =
       (if sensors_temperatures src = None then st else emit Call_sensors_temperatures st)"
proof -
  obtain r1 s1 where m1: "method1 src st = (r1, s1)" by (cases "method1 src st")
  obtain r4 s4 where m4: "method4 src s1 = (r4, s4)" by (cases "method4 src s1")
  have r4: "fst (method4 src st) = r4"
    using method4_fst [of src st s1] m4 by simp
  have s4: "s4 = emit Run_sensors s1"
    using method4_snd [of src s1] m4 by simp
  have a: "fst (method1 src st) = Inr (Some t) \<longrightarrow>
      get_cpu_temperature src st = (t, emit Call_sensors_temperatures st)"
    using method1_snd [of src st] method1_fst [of src st]
    by (auto simp: get_cpu_temperature_def temperature_try_def m1 split: option.splits)
  have b: "fst (method1 src st) = Inr None \<and> thermal_zone0 src = Some (Inr millis) \<longrightarrow>
      get_cpu_temperature src st =
        (TempCelsius (of_int millis / 1000), emit Open_thermal_zone (snd (method1 src st)))"
    by (simp add: get_cpu_temperature_def temperature_try_def m1 method2_def)
  have c: "fst (method1 src st) = Inr None \<and> thermal_zone0 src = None
        \<and> vcgencmd src = Some (Inr out) \<longrightarrow>
      get_cpu_temperature src st =
        (TempText (strip (remove_from ''temp='' 0 out)),
         emit Run_vcgencmd (snd (method1 src st)))"
    by (simp add: get_cpu_temperature_def temperature_try_def m1 method2_def method3_def)
  have d: "fst (method1 src st) = Inr None \<and> thermal_zone0 src = None \<and> vcgencmd src = None \<longrightarrow>
      get_cpu_temperature src st =
        (case fst (method4 src st) of Some t' \<Rightarrow> t' | None \<Rightarrow> TempNA,
         emit Run_sensors (snd (method1 src st)))"
    by (simp add: get_cpu_temperature_def temperature_try_def m1 m4 r4 s4 method2_def
        method3_def split: option.splits)
  have e1: "sensors_temperatures src = Some (Inl e) \<longrightarrow>
      get_cpu_temperature src st =
        (TempNA, emit (Log (Error_cpu_temperature e)) (emit Call_sensors_temperatures st))"
    by (simp add: get_cpu_temperature_def temperature_try_def method1_def)
  have e2: "fst (method1 src st) = Inr None \<and> thermal_zone0 src = Some (Inl e) \<longrightarrow>
      get_cpu_temperature src st =
        (TempNA,
         emit (Log (Error_cpu_temperature e)) (emit Open_thermal_zone (snd (method1 src st))))"
    by (simp add: get_cpu_temperature_def temperature_try_def m1 method2_def)
  have e3: "fst (method1 src st) = Inr None \<and> thermal_zone0 src = None
        \<and> vcgencmd src = Some (Inl e) \<longrightarrow>
      get_cpu_temperature src st =
        (TempNA, emit (Log (Error_cpu_temperature e)) (emit Run_vcgencmd (snd (method1 src st))))"
    by (simp add: get_cpu_temperature_def temperature_try_def m1 method2_def method3_def)
  show ?thesis
    using a b c d e1 e2 e3 method1_fst [of src st] method1_snd [of src st] by blast
qed

text \<open>Five hosts: the API wins over the thermal zone (first matching entry, whatever the
  case of its label); the thermal zone is read in millidegrees; the Pi; the tool; and the
  host of the counterexample.\<close>

theorem get_cpu_temperature_priority_witness:
  "get_cpu_temperature api_sources monitor0 = (TempCelsius 45, emit Call_sensors_temperatures monitor0)
   \<and> get_cpu_temperature zone_sources monitor0 = (TempCelsius 47, emit Open_thermal_zone monitor0)
   \<and> get_cpu_temperature pi_sources monitor0 = (TempText ''47.2'C'', emit Run_vcgencmd monitor0)
   \<and> get_cpu_temperature tool_sources monitor0 =
       (TempText (''47.0'' @ degree_sign @ ''C''), emit Run_sensors monitor0)
   \<and> get_cpu_temperature bad_zone_sources monitor0 =
       (TempNA, emit (Log (Error_cpu_temperature ValueError)) (emit Open_thermal_zone monitor0))"
proof -
  have m: "label_matches ''Package id 0''" "\<not> label_matches ''''"
    by code_simp+
  have a: "fst (method1 api_sources monitor0) = Inr (Some (TempCelsius 45))"
    using m by (simp add: method1_def api_sources_def)
  have n: "fst (method1 src monitor0) = Inr None \<and> snd (method1 src monitor0) = monitor0"
    if "sensors_temperatures src = None" for src
    using that by (simp add: method1_def)
  have z: "sensors_temperatures zone_sources = None"
    "thermal_zone0 zone_sources = Some (Inr 47000)"
    by (simp_all add: zone_sources_def no_temp_def)
  have p: "sensors_temperatures pi_sources = None" "thermal_zone0 pi_sources = None"
    "vcgencmd pi_sources = Some (Inr ''temp=47.2'C'')"
    by (simp_all add: pi_sources_def no_temp_def)
  have t: "sensors_temperatures tool_sources = None" "thermal_zone0 tool_sources = None"
    "vcgencmd tool_sources = None"
    "fst (method4 tool_sources monitor0) = Some (TempText (''47.0'' @ degree_sign @ ''C''))"
    by (simp_all add: tool_sources_def no_temp_def method4_def degree_sign_def strip_def
        is_space_def)
  have b: "sensors_temperatures bad_zone_sources = None"
    "thermal_zone0 bad_zone_sources = Some (Inl ValueError)"
    by (simp_all add: bad_zone_sources_def tool_sources_def no_temp_def)
  show ?thesis
    using get_cpu_temperature_priority [of api_sources monitor0 "TempCelsius 45"] a
      get_cpu_temperature_priority [of zone_sources monitor0 _ 47000] n [OF z(1)] z(2)
      get_cpu_temperature_priority [of pi_sources monitor0 _ _ "''temp=47.2'C''"] n [OF p(1)] p(2,3)
      get_cpu_temperature_priority [of tool_sources monitor0] n [OF t(1)] t(2,3,4)
      get_cpu_temperature_priority [of bad_zone_sources monitor0 _ _ _ ValueError] n [OF b(1)] b(2)
    by (simp add: strip_def is_space_def)
qed

subsection \<open>C6: the first network rate after startup\<close>

text \<open>
  C6, as claimed, fails: the first rate is not reported as unavailable. \<^verbatim>\<open>__init__\<close>
  stores a reading of the counters, and the first \<^verbatim>\<open>get_network_speed\<close> computes a rate
  against it like any later one: here 1000 and 1500 bytes over the default 300 seconds.
\<close>

theorem first_network_speed_is_a_rate:
  "(case init default_config growing_world of
      Inl e \<Rightarrow> False
    | Inr st \<Rightarrow>
        fst (get_network_speed growing_world st) =
          NetSpeed (1000 / 300 / 1024) (1500 / 300 / 1024)
        \<and> fst (get_network_speed growing_world st) \<noteq> NetNA)"
  by (simp add: init_def default_config_def growing_world_def calm_world_def
      get_network_speed_def network_speed_try_def get_network_bytes_def truediv_def advance_def)

text \<open>
  C6, amended. The constructor reads the counters once (\<open>seed\<close>) and stores them, so the
  first rate computation has a previous sample and is treated like every later one.
  Called on an object that still holds the seed, \<^verbatim>\<open>get_network_speed\<close> returns the rate
  \<open>(cur - seed) / alert_interval\<close> per direction when the interval is not zero and the
  counters are read (\<open>cur\<close>), and \<^verbatim>\<open>"N/A"\<close> when the interval is zero or the counters
  cannot be read. So does the first sample taken after construction, when its four
  psutil calls answer. The first rate is a rate against the counters at startup:
  unavailable only where any later one would be, and never a rate against zero.
\<close>

theorem first_network_speed:
  assumes "init cfg w = Inr st"
  shows "\<exists>seed. w_net_io w 0 = Inr seed \<and> prev_network_bytes st = seed
           \<and> alert_interval st = ALERT_INTERVAL cfg \<and> stores_of (trace st) = []
           \<and> (\<forall>s. prev_network_bytes s = seed \<and> alert_interval s = ALERT_INTERVAL cfg \<longrightarrow>
                 fst (get_network_speed w s) =
                   (case w_net_io w (clock s) of
                      Inl e \<Rightarrow> NetNA
                    | Inr cur \<Rightarrow>
                        if ALERT_INTERVAL cfg = 0 then NetNA
                        else NetSpeed
                               (of_int (fst cur - fst seed) / ALERT_INTERVAL cfg / 1024)
                               (of_int (snd cur - snd seed) / ALERT_INTERVAL cfg / 1024)))
           \<and> (\<not> isl (psutil_cpu_percent (w_sample w 1))
                \<and> \<not> isl (psutil_cpu_freq (w_sample w 1))
                \<and> \<not> isl (psutil_virtual_memory (w_sample w 1))
                \<and> \<not> isl (psutil_swap_memory (w_sample w 1)) \<longrightarrow>
               (\<exists>m. fst (get_system_metrics w st) = Some m
                  \<and> network_speed m =
                      (case w_net_io w 2 of
                         Inl e \<Rightarrow> NetNA
                       | Inr cur \<Rightarrow>
                           if ALERT_INTERVAL cfg = 0 then NetNA
                           else NetSpeed
                                  (of_int (fst cur - fst seed) / ALERT_INTERVAL cfg / 1024)
                                  (of_int (snd cur - snd seed) / ALERT_INTERVAL cfg / 1024))))"
proof -
  obtain seed where seed: "w_net_io w 0 = Inr seed"
    using assms by (cases "w_net_io w 0") (simp_all add: init_def)
  have st: "prev_network_bytes st = seed" "clock st = 1" "trace st = []"
    "alert_interval st = ALERT_INTERVAL cfg"
    using assms seed by (auto simp: init_def)
  have g: "fst (get_network_speed w s) =
             (case w_net_io w (clock s) of
                Inl e \<Rightarrow> NetNA
              | Inr cur \<Rightarrow>
                  if ALERT_INTERVAL cfg = 0 then NetNA
                  else NetSpeed
                         (of_int (fst cur - fst seed) / ALERT_INTERVAL cfg / 1024)
                         (of_int (snd cur - snd seed) / ALERT_INTERVAL cfg / 1024))"
    if "prev_network_bytes s = seed" and "alert_interval s = ALERT_INTERVAL cfg" for s
    using that by (simp add: get_network_speed_fst split: sum.splits)
  obtain t s1 where T: "get_cpu_temperature (temp_obs (w_sample w 1)) (advance st) = (t, s1)"
    by (cases "get_cpu_temperature (temp_obs (w_sample w 1)) (advance st)")
  have q: "quiet (advance st) s1"
    using quiet_get_cpu_temperature_pair [OF T] .
  have s1: "prev_network_bytes s1 = seed" "clock s1 = 2" "alert_interval s1 = ALERT_INTERVAL cfg"
    using q st settings_fields [of s1 st] by (simp_all add: quiet_def)
  have f: "\<exists>m. fst (get_system_metrics w st) = Some m
             \<and> network_speed m = fst (get_network_speed w s1)"
    if a: "\<not> isl (psutil_cpu_percent (w_sample w 1))"
      "\<not> isl (psutil_cpu_freq (w_sample w 1))"
      "\<not> isl (psutil_virtual_memory (w_sample w 1))"
      "\<not> isl (psutil_swap_memory (w_sample w 1))"
  proof -
    obtain cpu where 1: "psutil_cpu_percent (w_sample w 1) = Inr cpu"
      using a(1) by (cases "psutil_cpu_percent (w_sample w 1)") simp_all
    obtain freq where 2: "psutil_cpu_freq (w_sample w 1) = Inr freq"
      using a(2) by (cases "psutil_cpu_freq (w_sample w 1)") simp_all
    obtain vt vu vp where 3: "psutil_virtual_memory (w_sample w 1) = Inr (vt, vu, vp)"
      using a(3) by (cases "psutil_virtual_memory (w_sample w 1)") auto
    obtain su sp where 4: "psutil_swap_memory (w_sample w 1) = Inr (su, sp)"
      using a(4) by (cases "psutil_swap_memory (w_sample w 1)") auto
    show ?thesis
      using get_system_metrics_answered [of w st cpu freq vt vu vp su sp] 1 2 3 4 st T
      by simp
  qed
  show ?thesis
    using seed st g f g [OF s1(1) s1(3)] s1(2) by auto
qed

text \<open>With the default settings and growing counters: the seed is (100, 200), the first
  sample reads (2100, 3200) and reports 2000 and 3000 bytes over 300 seconds.\<close>

theorem first_network_speed_witness:
  "\<exists>st m. init default_config growing_world = Inr st
     \<and> prev_network_bytes st = (100, 200)
     \<and> fst (get_system_metrics growing_world st) = Some m
     \<and> network_speed m = NetSpeed (2000 / 300 / 1024) (3000 / 300 / 1024)"
proof -
  obtain st where st: "init default_config growing_world = Inr st"
    by (simp add: init_def growing_world_def calm_world_def)
  have a: "ALERT_INTERVAL default_config = 300"
    by (simp add: default_config_def)
  have s: "\<not> isl (psutil_cpu_percent (w_sample growing_world 1))"
    "\<not> isl (psutil_cpu_freq (w_sample growing_world 1))"
    "\<not> isl (psutil_virtual_memory (w_sample growing_world 1))"
    "\<not> isl (psutil_swap_memory (w_sample growing_world 1))"
    "w_net_io growing_world 2 = Inr (2100, 3200)"
    "w_net_io growing_world 0 = Inr (100, 200)"
    by (simp_all add: growing_world_def calm_world_def sample_of_def)
  show ?thesis
    using first_network_speed [OF st] st s a by auto
qed

subsection \<open>C7: a metric that cannot be collected\<close>

text \<open>
  C7, as claimed, fails. On a platform where \<^verbatim>\<open>psutil.cpu_freq()\<close> raises, the
  \<^verbatim>\<open>except\<close> branch of \<^verbatim>\<open>get_system_metrics\<close> returns the empty dict: the CPU, memory
  and swap percentages, which were read, are lost with it.
\<close>

theorem get_system_metrics_emptied:
  "psutil_cpu_percent (w_sample freqless_world (clock monitor0)) = Inr 90
   \<and> psutil_virtual_memory (w_sample freqless_world (clock monitor0)) =
       Inr (8589934592, 4294967296, 85)
   \<and> psutil_swap_memory (w_sample freqless_world (clock monitor0)) = Inr (0, 5)
   \<and> fst (get_system_metrics freqless_world monitor0) = None"
  by (simp add: get_system_metrics_def system_metrics_try_def Let_def freqless_world_def
      busy_world_def calm_world_def sample_of_def)

text \<open>
  C7, amended. \<^verbatim>\<open>get_system_metrics\<close> never raises. When one of its four psutil calls
  (CPU percent, CPU frequency, virtual memory, swap) raises, the exception is caught, one
  error record is written to the log and the empty dict is returned, for which the
  threshold checks read 0. When the four calls answer, it returns the full dict without
  logging an error of its own, and only three fields can be \<^verbatim>\<open>"N/A"\<close>, each on its own:
  the frequency when \<^verbatim>\<open>psutil.cpu_freq()\<close> returns \<^verbatim>\<open>None\<close>, the temperature when
  \<^verbatim>\<open>get_cpu_temperature\<close> gives \<^verbatim>\<open>"N/A"\<close>, and the network speed when
  \<^verbatim>\<open>get_network_speed\<close> gives \<^verbatim>\<open>"N/A"\<close>; the other fields are the values read.
\<close>

theorem get_system_metrics_degrades:
  "(isl (psutil_cpu_percent (w_sample w (clock st)))
      \<or> isl (psutil_cpu_freq (w_sample w (clock st)))
      \<or> isl (psutil_virtual_memory (w_sample w (clock st)))
      \<or> isl (psutil_swap_memory (w_sample w (clock st)))
    \<longrightarrow> (\<exists>e. system_metrics_try w st = (Inl e, advance st)
             \<and> get_system_metrics w st =
                 (None, emit (Log (Error_system_metrics e)) (advance st))
             \<and> trace (snd (get_system_metrics w st)) =
                 trace st @ [Log (Error_system_metrics e)])
        \<and> get_or_0 cpu_percent (fst (get_system_metrics w st)) = 0
        \<and> get_or_0 memory_percent (fst (get_system_metrics w st)) = 0
        \<and> get_or_0 swap_percent (fst (get_system_metrics w st)) = 0)
   \<and> (psutil_cpu_percent (w_sample w (clock st)) = Inr cpu
      \<and> psutil_cpu_freq (w_sample w (clock st)) = Inr freq
      \<and> psutil_virtual_memory (w_sample w (clock st)) = Inr (mem_total, mem_used, mem_percent)
      \<and> psutil_swap_memory (w_sample w (clock st)) = Inr (swp_used, swp_percent)
    \<longrightarrow> fst (get_system_metrics w st) =
          Some \<lparr>cpu_percent = cpu,
                cpu_freq = map_option (\<lambda>mhz. mhz / 1000) freq,
                cpu_temp =
                  fst (get_cpu_temperature (temp_obs (w_sample w (clock st))) (advance st)),
                memory_total = gigabytes mem_total,
                memory_used = gigabytes mem_used,
                memory_percent = mem_percent,
                swap_used = gigabytes swp_used,
                swap_percent = swp_percent,
                network_speed =
                  fst (get_network_speed w
                        (snd (get_cpu_temperature (temp_obs (w_sample w (clock st)))
                               (advance st))))\<rparr>
        \<and> snd (get_system_metrics w st) =
            snd (get_network_speed w
                  (snd (get_cpu_temperature (temp_obs (w_sample w (clock st))) (advance st)))))"
proof -
  have a: "(\<exists>e. system_metrics_try w st = (Inl e, advance st)
             \<and> get_system_metrics w st =
                 (None, emit (Log (Error_system_metrics e)) (advance st))
             \<and> trace (snd (get_system_metrics w st)) =
                 trace st @ [Log (Error_system_metrics e)])
        \<and> get_or_0 cpu_percent (fst (get_system_metrics w st)) = 0
        \<and> get_or_0 memory_percent (fst (get_system_metrics w st)) = 0
        \<and> get_or_0 swap_percent (fst (get_system_metrics w st)) = 0"
    if h: "isl (psutil_cpu_percent (w_sample w (clock st)))
      \<or> isl (psutil_cpu_freq (w_sample w (clock st)))
      \<or> isl (psutil_virtual_memory (w_sample w (clock st)))
      \<or> isl (psutil_swap_memory (w_sample w (clock st)))"
  proof -
    obtain e where e: "system_metrics_try w st = (Inl e, advance st)"
      "get_system_metrics w st = (None, emit (Log (Error_system_metrics e)) (advance st))"
      using get_system_metrics_caught [OF h] by blast
    show ?thesis
      using e by (simp add: get_or_0_def)
  qed
  have b: "fst (get_system_metrics w st) =
          Some \<lparr>cpu_percent = cpu,
                cpu_freq = map_option (\<lambda>mhz. mhz / 1000) freq,
                cpu_temp =
                  fst (get_cpu_temperature (temp_obs (w_sample w (clock st))) (advance st)),
                memory_total = gigabytes mem_total,
                memory_used = gigabytes mem_used,
                memory_percent = mem_percent,
                swap_used = gigabytes swp_used,
                swap_percent = swp_percent,
                network_speed =
                  fst (get_network_speed w
                        (snd (get_cpu_temperature (temp_obs (w_sample w (clock st)))
                               (advance st))))\<rparr>
        \<and> snd (get_system_metrics w st) =
            snd (get_network_speed w
                  (snd (get_cpu_temperature (temp_obs (w_sample w (clock st))) (advance st))))"
    if "psutil_cpu_percent (w_sample w (clock st)) = Inr cpu"
      "psutil_cpu_freq (w_sample w (clock st)) = Inr freq"
      "psutil_virtual_memory (w_sample w (clock st)) = Inr (mem_total, mem_used, mem_percent)"
      "psutil_swap_memory (w_sample w (clock st)) = Inr (swp_used, swp_percent)"
    using that get_system_metrics_answered [of w st cpu freq mem_total mem_used mem_percent
        swp_used swp_percent] snd_get_system_metrics_answered [of w st]
    by simp
  show ?thesis
    using a b by blast
qed

text \<open>On the host without any temperature source and with a zero interval, temperature
  and network speed are \<^verbatim>\<open>"N/A"\<close> and the rest of the sample is there; on the platform
  without \<^verbatim>\<open>cpu_freq\<close> the sample is empty and the error is in the log.\<close>

theorem get_system_metrics_degrades_witness:
  "fst (get_system_metrics calm_world (monitor0\<lparr>alert_interval := 0\<rparr>)) =
     Some \<lparr>cpu_percent = 10, cpu_freq = Some (2400 / 1000), cpu_temp = TempNA,
           memory_total = gigabytes 8589934592, memory_used = gigabytes 4294967296,
           memory_percent = 20, swap_used = gigabytes 0, swap_percent = 0,
           network_speed = NetNA\<rparr>
   \<and> isl (psutil_cpu_freq (w_sample freqless_world (clock monitor0)))
   \<and> get_system_metrics freqless_world monitor0 =
       (None,
        emit (Log (Error_system_metrics (LibraryError ''NotImplementedError'')))
          (advance monitor0))"
proof -
  have a: "psutil_cpu_percent (w_sample calm_world (clock (monitor0\<lparr>alert_interval := 0\<rparr>))) = Inr 10
    \<and> psutil_cpu_freq (w_sample calm_world (clock (monitor0\<lparr>alert_interval := 0\<rparr>))) = Inr (Some 2400)
    \<and> psutil_virtual_memory (w_sample calm_world (clock (monitor0\<lparr>alert_interval := 0\<rparr>))) =
        Inr (8589934592, 4294967296, 20)
    \<and> psutil_swap_memory (w_sample calm_world (clock (monitor0\<lparr>alert_interval := 0\<rparr>))) = Inr (0, 0)"
    by (simp add: calm_world_def sample_of_def)
  have t: "get_cpu_temperature (temp_obs (w_sample calm_world k)) s = (TempNA, emit Run_sensors s)"
    for k s
    by (simp add: get_cpu_temperature_def temperature_try_def method1_def method2_def
        method3_def method4_def calm_world_def sample_of_def no_temp_def)
  have n: "fst (get_network_speed calm_world s) = NetNA" if "alert_interval s = 0" for s
    using that
    by (simp add: get_network_speed_def network_speed_try_def get_network_bytes_def truediv_def
        calm_world_def advance_def)
  have f: "isl (psutil_cpu_freq (w_sample freqless_world (clock monitor0)))"
    by (simp add: freqless_world_def busy_world_def calm_world_def sample_of_def)
  have e: "fst (system_metrics_try freqless_world monitor0) =
             Inl (LibraryError ''NotImplementedError'')"
    by (simp add: system_metrics_try_def Let_def freqless_world_def busy_world_def
        calm_world_def sample_of_def)
  have c: "fst (get_system_metrics calm_world (monitor0\<lparr>alert_interval := 0\<rparr>)) =
     Some \<lparr>cpu_percent = 10, cpu_freq = Some (2400 / 1000), cpu_temp = TempNA,
           memory_total = gigabytes 8589934592, memory_used = gigabytes 4294967296,
           memory_percent = 20, swap_used = gigabytes 0, swap_percent = 0,
           network_speed = NetNA\<rparr>"
    using get_system_metrics_degrades [of calm_world "monitor0\<lparr>alert_interval := 0\<rparr>" 10
        "Some 2400" 8589934592 4294967296 20 0 0] a
    by (simp add: t n emit_def advance_def)
  obtain e' where e': "system_metrics_try freqless_world monitor0 = (Inl e', advance monitor0)"
    "get_system_metrics freqless_world monitor0 =
       (None, emit (Log (Error_system_metrics e')) (advance monitor0))"
    using get_system_metrics_degrades [of freqless_world monitor0 0 None 0 0 0 0 0] f by blast
  have d: "get_system_metrics freqless_world monitor0 =
       (None,
        emit (Log (Error_system_metrics (LibraryError ''NotImplementedError'')))
          (advance monitor0))"
    using e e' by simp
  show ?thesis
    using c f d by simp
qed

subsection \<open>C8: a notification never raises\<close>

text \<open>
  C8. \<^verbatim>\<open>send_telegram_message\<close> returns normally whatever happens in it. After its two
  samples (which post nothing) it makes at most one \<^verbatim>\<open>requests.post\<close> and writes exactly
  one log record: success when the answer is 200, a failure with the status code for any
  other answer, a failure with the exception when the post raises; when the disk
  enumeration raises there is no post at all, and the failure is logged.
\<close>

theorem send_telegram_message_returns:
  assumes "get_system_metrics w (emit (Send_called t m) st) = (mt, s1)"
    and "get_disk_usage w s1 = (dr, s2)"
  shows "fst (send_telegram_message w t m st) = Inr ()
         \<and> posts_of (trace s2) = posts_of (trace st)
         \<and> trace (snd (send_telegram_message w t m st)) =
             trace s2 @
             (case dr of
                Inl e \<Rightarrow> [Log (Error_sending e)]
              | Inr d \<Rightarrow>
                  [Post (bot_token s2) (chat_id s2)
                     \<lparr>msg_icon = (if m = Alert then Warning_icon else Info_icon),
                      msg_title = t, msg_server = server_name s2, msg_os = os_info s2,
                      msg_arch = arch_info s2,
                      msg_time = w_now w (clock (emit (Send_called t m) st)),
                      msg_metrics = mt, msg_disk_info = d\<rparr>,
                   Log (case w_post w (clock s2) of
                          Inl e \<Rightarrow> Error_sending e
                        | Inr code \<Rightarrow>
                            if code = 200 then Info_message_sent t
                            else Error_status_code code)])"
proof -
  have "posts_of (trace s2) = posts_of (trace st)"
    using sampled_get_system_metrics_pair [OF assms(1)] sampled_get_disk_usage_pair [OF assms(2)]
    by (simp add: sampled_def)
  then show ?thesis
    using send_returns [of w t m st] send_trace [OF assms] by simp
qed

text \<open>An answer of 200, an answer of 500, a connection error: one post each, the log record
  that goes with it, and a normal return.\<close>

theorem send_telegram_message_returns_witness:
  "fst (send_telegram_message refusing_world ''Regular Status Update'' Status monitor0) = Inr ()
   \<and> last (trace (snd (send_telegram_message calm_world ''Regular Status Update'' Status monitor0)))
       = Log (Info_message_sent ''Regular Status Update'')
   \<and> last (trace (snd (send_telegram_message refusing_world ''Regular Status Update'' Status
                         monitor0)))
       = Log (Error_status_code 500)
   \<and> length (posts_of (trace (snd (send_telegram_message refusing_world ''Regular Status Update''
                                     Status monitor0)))) = 1
   \<and> last (trace (snd (send_telegram_message offline_world ''Regular Status Update'' Status
                         monitor0)))
       = Log (Error_sending (LibraryError ''ConnectionError''))"
proof -
  have d: "get_disk_usage w s = (Inr [], snd (get_disk_usage w s))"
    if "w_partitions w = (\<lambda>k. Inr [])" for w s
    using get_disk_usage_answered [of w s "[]"] that by (simp add: prod_eq_iff)
  have p: "w_partitions calm_world = (\<lambda>k. Inr [])" "w_partitions refusing_world = (\<lambda>k. Inr [])"
    "w_partitions offline_world = (\<lambda>k. Inr [])"
    by (simp_all add: calm_world_def refusing_world_def offline_world_def)
  have c: "w_post calm_world k = Inr 200" "w_post refusing_world k = Inr 500"
    "w_post offline_world k = Inl (LibraryError ''ConnectionError'')" for k
    by (simp_all add: calm_world_def refusing_world_def offline_world_def)
  have m: "get_system_metrics w s = (fst (get_system_metrics w s), snd (get_system_metrics w s))"
    for w s
    by simp
  have t: "posts_of (trace monitor0) = []"
    by (simp add: monitor0_def)
  show ?thesis
    using send_telegram_message_returns [OF m d [OF p(1)], of "''Regular Status Update''" Status
        monitor0]
      send_telegram_message_returns [OF m d [OF p(2)], of "''Regular Status Update''" Status
        monitor0]
      send_telegram_message_returns [OF m d [OF p(3)], of "''Regular Status Update''" Status
        monitor0]
    by (simp add: c t)
qed

subsection \<open>C9: the loops do not end on an exception of a tick\<close>




subsection \<open>C10: every notification samples again\<close>




end
